theory Spec2Isabelle
  imports Complex_Main "HOL-Library.Sublist" "HOL-Library.Word"
begin

section \<open>The lease-generation request handler\<close>

text \<open>
  This theory embeds \<^verbatim>\<open>exports.handler\<close> of
  \<^verbatim>\<open>netlify/functions/generate-lease.js\<close>. The handler is one asynchronous
  function: a preflight answer, a \<^verbatim>\<open>try\<close> block of seven numbered steps with
  early returns, and a \<^verbatim>\<open>catch\<close> block. Its collaborators
  (\<^verbatim>\<open>lib/schema\<close>, \<^verbatim>\<open>lib/llm\<close>, \<^verbatim>\<open>lib/pdf\<close>,
  \<^verbatim>\<open>lib/rateLimit\<close>, \<^verbatim>\<open>lib/captcha\<close>, \<^verbatim>\<open>lib/telemetry\<close>)
  are not part of the source tree, so they are parameters of the model (the record
  \<open>env\<close>): whatever they return or throw, the handler below does what the
  JavaScript does with it. Every call of a collaborator and every console line is
  appended to a trace, in program order, with the call's own result.
\<close>

subsection \<open>Values\<close>

text \<open>JSON values, as \<^verbatim>\<open>JSON.parse\<close> produces them. An object keeps its
  properties in insertion order.\<close>

datatype json =
    JNull
  | JBool bool
  | JNum rat
  | JStr string
  | JArr "json list"
  | JObj "(string \<times> json) list"

type_synonym byte = "8 word"

text \<open>A thrown value: an instance of \<^verbatim>\<open>Error\<close> with its message and stack, or
  anything else (\<^verbatim>\<open>error instanceof Error\<close> is false).\<close>

datatype thrown =
    ErrorObj string string
  | NonError json

text \<open>JavaScript truthiness of a property value read from a parsed body; \<open>None\<close> is
  \<^verbatim>\<open>undefined\<close>.\<close>

fun truthy :: "json option \<Rightarrow> bool" where
  "truthy None = False"
| "truthy (Some JNull) = False"
| "truthy (Some (JBool b)) = b"
| "truthy (Some (JNum n)) = (n \<noteq> 0)"
| "truthy (Some (JStr s)) = (s \<noteq> [])"
| "truthy (Some (JArr xs)) = True"
| "truthy (Some (JObj ps)) = True"

text \<open>\<^verbatim>\<open>JSON.stringify\<close> of an object literal leaves out the properties whose value
  is \<^verbatim>\<open>undefined\<close>. A stringified body is kept as the JSON value it denotes.\<close>

definition obj :: "(string \<times> json option) list \<Rightarrow> json" where
  "obj ps = JObj (List.map_filter (\<lambda>(k, v). map_option (Pair k) v) ps)"

text \<open>Decimal rendering of a number (\<^verbatim>\<open>Number.prototype.toString\<close> on an
  integer, and a template literal's conversion). JavaScript prints an integer in plain
  digits below \<open>10\<^sup>2\<^sup>1\<close>, which covers timestamps and quota counts.\<close>

fun digits :: "nat \<Rightarrow> string" where
  "digits n = (if n < 10 then [''0123456789'' ! n]
               else digits (n div 10) @ [''0123456789'' ! (n mod 10)])"

definition toString :: "int \<Rightarrow> string" where
  "toString i = (if i < 0 then CHR ''-'' # digits (nat (- i)) else digits (nat i))"

text \<open>\<^verbatim>\<open>Array.prototype.join\<close>.\<close>

fun join :: "string \<Rightarrow> string list \<Rightarrow> string" where
  "join sep [] = []"
| "join sep [x] = x"
| "join sep (x # y # ys) = x @ sep @ join sep (y # ys)"

text \<open>An object of string-valued properties (a header object) is a map from property
  names to values. An object spread \<^verbatim>\<open>{...a, ...b}\<close> is \<open>a ++ b\<close>: a property of
  \<open>b\<close> replaces a property of \<open>a\<close> with the same name.\<close>

type_synonym header_object = "string \<rightharpoonup> string"

subsection \<open>Requests, responses and the collaborators' results\<close>

record http_event =
  httpMethod :: string
  event_body :: "string option"
  event_headers :: header_object

text \<open>A response body is a string: plain text, the \<^verbatim>\<open>JSON.stringify\<close> text of a
  value (kept as that value), or the base64 text of a byte buffer (kept as the bytes).\<close>

datatype payload =
    Text string
  | Json json
  | Base64 "byte list"

record response =
  statusCode :: nat
  headers :: header_object
  body :: payload
  isBase64Encoded :: bool

text \<open>What \<^verbatim>\<open>rateLimitMiddleware\<close> resolves to; the handler reads these six
  properties.\<close>

record rate_limit =
  rl_success :: bool
  rl_status :: nat
  rl_headers :: header_object
  rl_error :: "json option"
  rl_remaining :: int
  rl_resetTime :: int

text \<open>One issue of a failed \<^verbatim>\<open>safeParse\<close>: an object with a \<^verbatim>\<open>path\<close>, an array of
  property names and array indices, which the handler reads, and whatever other
  properties the validator gives the issue (its code, what was expected and received, a
  message), which \<^verbatim>\<open>JSON.stringify\<close> writes out with the path, in property order:
  those before the path and those after it.\<close>

datatype seg = Key string | Index nat

record issue =
  issue_before :: "(string \<times> json) list"
  issue_path :: "seg list"
  issue_after :: "(string \<times> json) list"

fun seg_str :: "seg \<Rightarrow> string" where
  "seg_str (Key k) = k"
| "seg_str (Index i) = digits i"

fun seg_json :: "seg \<Rightarrow> json" where
  "seg_json (Key k) = JStr k"
| "seg_json (Index i) = JNum (of_nat i)"

definition issue_json :: "issue \<Rightarrow> json" where
  "issue_json i =
     JObj (issue_before i @ (''path'', JArr (map seg_json (issue_path i))) # issue_after i)"

record generation =
  leaseData :: json
  tokenUsage :: json
  estimatedCost :: json

record provider =
  generateLease :: "json \<Rightarrow> thrown + generation"

subsection \<open>The trace\<close>

datatype console_entry =
    ReceivedBody json
  | InputValidationFailed "issue list"
  | OutputValidationFailed "issue list"
  | LLMReturned json
  | LeaseGenerationError thrown
  | ErrorDetails string string string

datatype event =
    RateLimitMiddleware "thrown + rate_limit"
  | IsCaptchaRequired "thrown + bool"
  | VerifyCaptcha "json option" "thrown + bool"
  | InputSafeParse json "issue list + json"
  | CreateLLMProvider "thrown option"
  | GenerateLease json "thrown + generation"
  | OutputSafeParse json "issue list + json"
  | LogTokenUsage json "thrown + unit"
  | TrackDailyCost json "thrown + unit"
  | GenerateLeaseDocx json "thrown + byte list"
  | ConsoleLog console_entry
  | ConsoleError console_entry

subsection \<open>The environment of one request\<close>

text \<open>
  What the collaborators and the platform answer during one request. A call that may
  throw has a result in \<open>thrown + _\<close>; the two \<^verbatim>\<open>safeParse\<close> calls return their
  failure as a value. The telemetry calls are not awaited, so only a synchronous throw
  of theirs reaches the \<^verbatim>\<open>catch\<close> block. \<open>nullPropertyError\<close> is the TypeError of
  reading a property of \<^verbatim>\<open>null\<close>, \<open>Date_now\<close> the value of \<^verbatim>\<open>Date.now()\<close> in
  line 113, \<open>Date_toISOString\<close> the timestamp of line 137, \<open>NODE_ENV\<close> the runtime
  mode.
\<close>

record env =
  rateLimitMiddleware :: "http_event \<Rightarrow> thrown + rate_limit"
  JSON_parse :: "string option \<Rightarrow> thrown + json"
  nullPropertyError :: thrown
  isCaptchaRequired :: "thrown + bool"
  verifyCaptcha :: "json option \<Rightarrow> thrown + bool"
  LeaseInputSchema_safeParse :: "json \<Rightarrow> issue list + json"
  createLLMProvider :: "thrown + provider"
  LeaseOutputSchema_safeParse :: "json \<Rightarrow> issue list + json"
  logTokenUsage :: "json \<Rightarrow> thrown + unit"
  trackDailyCost :: "json \<Rightarrow> thrown + unit"
  generateLeaseDocx :: "json \<Rightarrow> thrown + byte list"
  getDocumentMimeType :: "string \<Rightarrow> string"
  getDocumentExtension :: "string \<Rightarrow> string"
  Date_now :: nat
  Date_toISOString :: string
  NODE_ENV :: "string option"

subsection \<open>Sequencing inside the \<^verbatim>\<open>try\<close> block\<close>

text \<open>
  A run of (part of) the \<^verbatim>\<open>try\<close> block ends in a returned response
  (\<open>Inr\<close>) or in a thrown value on its way to the \<^verbatim>\<open>catch\<close> block
  (\<open>Inl\<close>), and carries the events it produced, oldest first.
\<close>

type_synonym run = "(thrown + response) \<times> event list"

definition returns :: "response \<Rightarrow> run" where
  "returns r = (Inr r, [])"

definition throws :: "thrown \<Rightarrow> run" where
  "throws e = (Inl e, [])"

text \<open>\<open>emit e k\<close>: the event \<open>e\<close> happens, then the run \<open>k\<close>.\<close>

definition emit :: "event \<Rightarrow> run \<Rightarrow> run" where
  "emit e k = (fst k, e # snd k)"

text \<open>\<open>attempt r k\<close>: an expression that may throw; its value is bound and the run
  goes on with \<open>k\<close>, or the thrown value leaves the block.\<close>

definition attempt :: "thrown + 'a \<Rightarrow> ('a \<Rightarrow> run) \<Rightarrow> run" where
  "attempt r k = (case r of Inl x \<Rightarrow> throws x | Inr v \<Rightarrow> k v)"

text \<open>\<open>call e r k\<close>: a collaborator is called (event \<open>e\<close>, which records the result
  \<open>r\<close>) and awaited.\<close>

definition call :: "event \<Rightarrow> thrown + 'a \<Rightarrow> ('a \<Rightarrow> run) \<Rightarrow> run" where
  "call e r k = emit e (attempt r k)"

subsection \<open>The handler\<close>

text \<open>Lines 10--14.\<close>

definition cors_headers :: header_object where
  "cors_headers =
     [''Access-Control-Allow-Origin'' \<mapsto> ''*'',
      ''Access-Control-Allow-Headers'' \<mapsto> ''Content-Type'',
      ''Access-Control-Allow-Methods'' \<mapsto> ''GET, POST, OPTIONS'']"

text \<open>\<^verbatim>\<open>body.captchaToken\<close> (line 47) on a parsed body: reading a property of
  \<^verbatim>\<open>null\<close> throws a TypeError, an object yields the property or
  \<^verbatim>\<open>undefined\<close>, and any other JSON value has no such property. A parsed object
  has no repeated key.\<close>

fun captchaToken :: "env \<Rightarrow> json \<Rightarrow> thrown + json option" where
  "captchaToken env JNull = Inl (nullPropertyError env)"
| "captchaToken env (JObj ps) = Inr (map_of ps ''captchaToken'')"
| "captchaToken env (JBool b) = Inr None"
| "captchaToken env (JNum n) = Inr None"
| "captchaToken env (JStr s) = Inr None"
| "captchaToken env (JArr xs) = Inr None"

text \<open>The responses of the early returns and of the last \<^verbatim>\<open>return\<close>.\<close>

definition rate_limited_response :: "rate_limit \<Rightarrow> response" where
  "rate_limited_response rateLimit =
     \<lparr>statusCode = rl_status rateLimit,
      headers = cors_headers ++ rl_headers rateLimit,
      body = Json (obj [(''success'', Some (JBool False)), (''error'', rl_error rateLimit)]),
      isBase64Encoded = False\<rparr>"

definition captcha_missing_response :: response where
  "captcha_missing_response =
     \<lparr>statusCode = 400, headers = cors_headers,
      body = Json (obj [(''success'', Some (JBool False)),
                        (''error'', Some (JStr ''Captcha token missing''))]),
      isBase64Encoded = False\<rparr>"

definition captcha_failed_response :: response where
  "captcha_failed_response =
     \<lparr>statusCode = 403, headers = cors_headers,
      body = Json (obj [(''success'', Some (JBool False)),
                        (''error'', Some (JStr ''Captcha verification failed''))]),
      isBase64Encoded = False\<rparr>"

definition invalid_input_response :: "issue list \<Rightarrow> response" where
  "invalid_input_response errors =
     \<lparr>statusCode = 400, headers = cors_headers,
      body = Json (obj [(''success'', Some (JBool False)),
                        (''error'', Some (JStr ''Invalid input data'')),
                        (''details'', Some (JArr (map issue_json errors)))]),
      isBase64Encoded = False\<rparr>"

definition missingFields :: "issue list \<Rightarrow> string list" where
  "missingFields errors = map (\<lambda>err. join ''.'' (map seg_str (issue_path err))) errors"

definition invalid_output_response :: "issue list \<Rightarrow> response" where
  "invalid_output_response errors =
     \<lparr>statusCode = 422, headers = cors_headers,
      body = Json (obj [(''success'', Some (JBool False)),
                        (''error'', Some (JStr ''Invalid lease data generated'')),
                        (''message'', Some (JStr (''Missing or invalid fields: ''
                            @ join '', '' (missingFields errors) @ ''. Please try again.''))),
                        (''details'', Some (JArr (map issue_json errors)))]),
      isBase64Encoded = False\<rparr>"

definition lease_filename :: "env \<Rightarrow> string" where
  "lease_filename env = ''lease-'' @ digits (Date_now env) @ getDocumentExtension env ''docx''"

definition document_response :: "env \<Rightarrow> rate_limit \<Rightarrow> byte list \<Rightarrow> response" where
  "document_response env rateLimit docxBuffer =
     \<lparr>statusCode = 200,
      headers =
        [''Content-Type'' \<mapsto> getDocumentMimeType env ''docx'',
         ''Content-Disposition'' \<mapsto>
            ''attachment; filename='' @ [CHR 0x22] @ lease_filename env @ [CHR 0x22],
         ''X-Rate-Limit-Remaining'' \<mapsto> toString (rl_remaining rateLimit),
         ''X-Rate-Limit-Reset'' \<mapsto> toString (rl_resetTime rateLimit)]
        ++ cors_headers,
      body = Base64 docxBuffer,
      isBase64Encoded = True\<rparr>"

text \<open>Steps 3 to 7 (lines 65--126): input validation, the provider call, output
  validation, telemetry, rendering and the document response. The renderer gets the
  generator's \<^verbatim>\<open>leaseData\<close> itself, not the validator's copy.\<close>

definition steps_3_to_7 :: "env \<Rightarrow> rate_limit \<Rightarrow> json \<Rightarrow> run" where
  "steps_3_to_7 env rateLimit parsed =
     (let inputValidation = LeaseInputSchema_safeParse env parsed in
      emit (InputSafeParse parsed inputValidation)
      (case inputValidation of
         Inl errors \<Rightarrow>
           emit (ConsoleError (InputValidationFailed errors))
             (returns (invalid_input_response errors))
       | Inr validatedInput \<Rightarrow>
           (let created = createLLMProvider env in
            call (CreateLLMProvider (case created of Inl e \<Rightarrow> Some e | Inr p \<Rightarrow> None)) created
            (\<lambda>llmProvider.
            (let generated = generateLease llmProvider validatedInput in
             call (GenerateLease validatedInput generated) generated
             (\<lambda>g.
             (let outputValidation = LeaseOutputSchema_safeParse env (leaseData g) in
              emit (OutputSafeParse (leaseData g) outputValidation)
              (case outputValidation of
                 Inl errors \<Rightarrow>
                   emit (ConsoleError (OutputValidationFailed errors))
                   (emit (ConsoleError (LLMReturned (leaseData g)))
                     (returns (invalid_output_response errors)))
               | Inr validatedOutput \<Rightarrow>
                   (let logged = logTokenUsage env (tokenUsage g) in
                    call (LogTokenUsage (tokenUsage g) logged) logged
                    (\<lambda>_.
                    (let tracked = trackDailyCost env (estimatedCost g) in
                     call (TrackDailyCost (estimatedCost g) tracked) tracked
                     (\<lambda>_.
                     (let rendered = generateLeaseDocx env (leaseData g) in
                      call (GenerateLeaseDocx (leaseData g) rendered) rendered
                      (\<lambda>docxBuffer.
                        returns (document_response env rateLimit docxBuffer)))))))))))))))"

text \<open>Step 2 (lines 45--63), followed by steps 3 to 7 when the challenge is not
  required or the token is verified.\<close>

definition steps_2_to_7 :: "env \<Rightarrow> rate_limit \<Rightarrow> json \<Rightarrow> run" where
  "steps_2_to_7 env rateLimit parsed =
     (let required = isCaptchaRequired env in
      call (IsCaptchaRequired required) required
      (\<lambda>captchaRequired.
        if captchaRequired then
          attempt (captchaToken env parsed)
          (\<lambda>token.
            if \<not> truthy token then returns captcha_missing_response
            else
              (let verified = verifyCaptcha env token in
               call (VerifyCaptcha token verified) verified
               (\<lambda>captchaVerified.
                 if \<not> captchaVerified then returns captcha_failed_response
                 else steps_3_to_7 env rateLimit parsed)))
        else steps_3_to_7 env rateLimit parsed))"

text \<open>The \<^verbatim>\<open>try\<close> block (lines 25--127): step 1, the parse of the body and its
  console line (lines 42--43), then the remaining steps.\<close>

definition try_block :: "env \<Rightarrow> http_event \<Rightarrow> run" where
  "try_block env ev =
     (let limited = rateLimitMiddleware env ev in
      call (RateLimitMiddleware limited) limited
      (\<lambda>rateLimit.
        if \<not> rl_success rateLimit then returns (rate_limited_response rateLimit)
        else
          attempt (JSON_parse env (event_body ev))
          (\<lambda>parsed.
            emit (ConsoleLog (ReceivedBody parsed))
              (steps_2_to_7 env rateLimit parsed))))"

text \<open>The \<^verbatim>\<open>catch\<close> block (lines 128--150).\<close>

fun errorMessage :: "thrown \<Rightarrow> string" where
  "errorMessage (ErrorObj msg stack) = msg"
| "errorMessage (NonError v) = ''Unknown error''"

fun errorStack :: "thrown \<Rightarrow> string" where
  "errorStack (ErrorObj msg stack) = stack"
| "errorStack (NonError v) = ''No stack trace''"

definition internal_error_response :: "env \<Rightarrow> thrown \<Rightarrow> response" where
  "internal_error_response env error =
     \<lparr>statusCode = 500, headers = cors_headers,
      body = Json (obj [(''success'', Some (JBool False)),
                        (''error'', Some (JStr ''Internal server error'')),
                        (''message'', Some (JStr (''An unexpected error occurred: ''
                            @ errorMessage error @ ''. Please try again.''))),
                        (''details'', if NODE_ENV env = Some ''development''
                                      then Some (JStr (errorStack error)) else None)]),
      isBase64Encoded = False\<rparr>"

definition catch_block :: "env \<Rightarrow> thrown \<Rightarrow> response \<times> event list" where
  "catch_block env error =
     (internal_error_response env error,
      [ConsoleError (LeaseGenerationError error),
       ConsoleError (ErrorDetails (errorMessage error) (errorStack error) (Date_toISOString env))])"

text \<open>The handler: the response and the trace of the whole request.\<close>

definition preflight_response :: response where
  "preflight_response =
     \<lparr>statusCode = 200, headers = cors_headers, body = Text [], isBase64Encoded = False\<rparr>"

text \<open>The \<^verbatim>\<open>try\<close> statement: a returned response stands; a thrown value goes
  through the \<^verbatim>\<open>catch\<close> block, whose two console lines follow the events of the
  \<^verbatim>\<open>try\<close> block.\<close>

definition try_catch :: "env \<Rightarrow> run \<Rightarrow> response \<times> event list" where
  "try_catch env r =
     (case r of
        (Inr resp, tr) \<Rightarrow> (resp, tr)
      | (Inl error, tr) \<Rightarrow>
          (let (resp, logged) = catch_block env error in (resp, tr @ logged)))"

definition handler :: "env \<Rightarrow> http_event \<Rightarrow> response \<times> event list" where
  "handler env ev =
     (if httpMethod ev = ''OPTIONS'' then (preflight_response, [])
      else try_catch env (try_block env ev))"

definition response_of :: "env \<Rightarrow> http_event \<Rightarrow> response" where
  "response_of env ev = fst (handler env ev)"

definition trace_of :: "env \<Rightarrow> http_event \<Rightarrow> event list" where
  "trace_of env ev = snd (handler env ev)"

subsection \<open>Reading a trace\<close>

text \<open>The operations of the pipeline's stages. A console line is no operation.\<close>

datatype op =
    RateLimit
  | ChallengeRequired
  | ChallengeVerify
  | InputValidate
  | SelectBackend
  | Generate
  | OutputValidate
  | TelemetryUsage
  | TelemetryCost
  | Render

fun op_of :: "event \<Rightarrow> op option" where
  "op_of (RateLimitMiddleware r) = Some RateLimit"
| "op_of (IsCaptchaRequired r) = Some ChallengeRequired"
| "op_of (VerifyCaptcha t r) = Some ChallengeVerify"
| "op_of (InputSafeParse b r) = Some InputValidate"
| "op_of (CreateLLMProvider r) = Some SelectBackend"
| "op_of (GenerateLease i r) = Some Generate"
| "op_of (OutputSafeParse d r) = Some OutputValidate"
| "op_of (LogTokenUsage u r) = Some TelemetryUsage"
| "op_of (TrackDailyCost c r) = Some TelemetryCost"
| "op_of (GenerateLeaseDocx d r) = Some Render"
| "op_of (ConsoleLog l) = None"
| "op_of (ConsoleError l) = None"

fun ops :: "event list \<Rightarrow> op list" where
  "ops [] = []"
| "ops (e # es) = (case op_of e of None \<Rightarrow> ops es | Some x \<Rightarrow> x # ops es)"

text \<open>The order of the operations in a request that passes every stage, from input
  validation on, from the challenge on, and as a whole; the verification call is there
  when the challenge is required.\<close>

definition order_from_validation :: "op list" where
  "order_from_validation =
     [InputValidate, SelectBackend, Generate, OutputValidate,
      TelemetryUsage, TelemetryCost, Render]"

definition order_from_challenge :: "bool \<Rightarrow> op list" where
  "order_from_challenge required =
     ChallengeRequired # (if required then [ChallengeVerify] else []) @ order_from_validation"

definition pipeline_order :: "bool \<Rightarrow> op list" where
  "pipeline_order required = RateLimit # order_from_challenge required"

text \<open>An operation failed: it threw, or it returned the negative answer of its gate.\<close>

fun failed :: "event \<Rightarrow> bool" where
  "failed (RateLimitMiddleware r) = (case r of Inl e \<Rightarrow> True | Inr rl \<Rightarrow> \<not> rl_success rl)"
| "failed (IsCaptchaRequired r) = isl r"
| "failed (VerifyCaptcha t r) = (case r of Inl e \<Rightarrow> True | Inr b \<Rightarrow> \<not> b)"
| "failed (InputSafeParse b r) = isl r"
| "failed (CreateLLMProvider r) = (r \<noteq> None)"
| "failed (GenerateLease i r) = isl r"
| "failed (OutputSafeParse d r) = isl r"
| "failed (LogTokenUsage u r) = isl r"
| "failed (TrackDailyCost c r) = isl r"
| "failed (GenerateLeaseDocx d r) = isl r"
| "failed (ConsoleLog l) = False"
| "failed (ConsoleError l) = False"

text \<open>No operation follows a failed one.\<close>

fun halts_on_failure :: "event list \<Rightarrow> bool" where
  "halts_on_failure [] = True"
| "halts_on_failure (e # es) = (if failed e then ops es = [] else halts_on_failure es)"

subsection \<open>How far a request gets\<close>

text \<open>The conditions under which a request arrives at a stage, read off the
  collaborators' answers. \<open>reaches_challenge\<close>: a request other than the preflight
  passed the rate limit and its body parsed.\<close>

definition reaches_challenge :: "env \<Rightarrow> http_event \<Rightarrow> rate_limit \<Rightarrow> json \<Rightarrow> bool" where
  "reaches_challenge env ev rateLimit parsed \<longleftrightarrow>
     httpMethod ev \<noteq> ''OPTIONS''
     \<and> rateLimitMiddleware env ev = Inr rateLimit \<and> rl_success rateLimit
     \<and> JSON_parse env (event_body ev) = Inr parsed"

text \<open>The challenge is not required, or the body's token was verified.\<close>

definition challenge_passed :: "env \<Rightarrow> json \<Rightarrow> bool" where
  "challenge_passed env parsed =
     (case isCaptchaRequired env of
        Inl e \<Rightarrow> False
      | Inr required \<Rightarrow>
          if required then
            (case captchaToken env parsed of
               Inl e \<Rightarrow> False
             | Inr token \<Rightarrow> truthy token \<and> verifyCaptcha env token = Inr True)
          else True)"

text \<open>The events of step 2 in a request that arrives at it with the parsed body.\<close>

definition challenge_events :: "env \<Rightarrow> json \<Rightarrow> event list" where
  "challenge_events env parsed =
     IsCaptchaRequired (isCaptchaRequired env)
     # (if isCaptchaRequired env = Inr True then
          (case captchaToken env parsed of
             Inl e \<Rightarrow> []
           | Inr token \<Rightarrow>
               if truthy token then [VerifyCaptcha token (verifyCaptcha env token)] else [])
        else [])"

definition reaches_generation ::
  "env \<Rightarrow> http_event \<Rightarrow> rate_limit \<Rightarrow> json \<Rightarrow> json \<Rightarrow> bool" where
  "reaches_generation env ev rateLimit parsed validatedInput \<longleftrightarrow>
     reaches_challenge env ev rateLimit parsed \<and> challenge_passed env parsed
     \<and> LeaseInputSchema_safeParse env parsed = Inr validatedInput"

text \<open>Step 4 as a whole: the provider is constructed and asked to generate.\<close>

definition generation_of :: "env \<Rightarrow> json \<Rightarrow> thrown + generation" where
  "generation_of env validatedInput =
     (case createLLMProvider env of
        Inl e \<Rightarrow> Inl e
      | Inr llmProvider \<Rightarrow> generateLease llmProvider validatedInput)"

definition passes_output_validation ::
  "env \<Rightarrow> http_event \<Rightarrow> rate_limit \<Rightarrow> json \<Rightarrow> json \<Rightarrow> generation \<Rightarrow> bool" where
  "passes_output_validation env ev rateLimit parsed validatedInput g \<longleftrightarrow>
     reaches_generation env ev rateLimit parsed validatedInput
     \<and> generation_of env validatedInput = Inr g
     \<and> \<not> isl (LeaseOutputSchema_safeParse env (leaseData g))"

text \<open>A property of a JSON body.\<close>

fun field :: "payload \<Rightarrow> string \<Rightarrow> json option" where
  "field (Json (JObj ps)) k = map_of ps k"
| "field b k = None"

definition is_digit :: "char \<Rightarrow> bool" where
  "is_digit c \<longleftrightarrow> c \<in> set ''0123456789''"

text \<open>
  Modelled from the spec: the decision of \<^verbatim>\<open>lib/rateLimit\<close> (not in the source
  tree) for a caller over quota. The spec has the limiter answer with the allowed flag,
  the remaining count and the reset time, and the response be too-many-requests carrying
  the remaining and reset values; the handler copies \<^verbatim>\<open>status\<close> and
  \<^verbatim>\<open>headers\<close> from the decision, so the decision has to hold them. The header
  names are those the handler itself uses on the document response.
\<close>

definition quota_exceeded :: "rate_limit \<Rightarrow> bool" where
  "quota_exceeded rateLimit \<longleftrightarrow>
     \<not> rl_success rateLimit \<and> rl_status rateLimit = 429
     \<and> rl_headers rateLimit ''X-Rate-Limit-Remaining''
         = Some (toString (rl_remaining rateLimit))
     \<and> rl_headers rateLimit ''X-Rate-Limit-Reset''
         = Some (toString (rl_resetTime rateLimit))"

subsection \<open>A stub environment\<close>

text \<open>Stub collaborators in the manner of the spec's end-to-end properties: a limiter
  that allows the request, a parser that knows four bodies and rejects the rest, stub schemas, a backend that
  echoes its input as the lease, and a renderer that returns four bytes.\<close>

definition lease_text :: string where
  \<open>lease_text =
     ''{"landlord":{"name":"Ann Lee"},"tenant":{"name":"Bo Diaz"},"financials":{"monthlyRent":1200}}''\<close>

definition lease_fields :: "(string \<times> json) list" where
  "lease_fields =
     [(''landlord'', JObj [(''name'', JStr ''Ann Lee'')]),
      (''tenant'', JObj [(''name'', JStr ''Bo Diaz'')]),
      (''financials'', JObj [(''monthlyRent'', JNum 1200)])]"

definition token_text :: string where
  \<open>token_text =
     ''{"captchaToken":"tok-1","landlord":{"name":"Ann Lee"},"tenant":{"name":"Bo Diaz"},"financials":{"monthlyRent":1200}}''\<close>

definition incomplete_text :: string where
  \<open>incomplete_text = ''{"tenant":{"name":"Bo Diaz"}}''\<close>

definition broken_text :: string where
  \<open>broken_text = ''{"landlord":''\<close>

definition null_text :: string where
  "null_text = ''null''"

definition token_fields :: "(string \<times> json) list" where
  "token_fields = (''captchaToken'', JStr ''tok-1'') # lease_fields"

definition incomplete_fields :: "(string \<times> json) list" where
  "incomplete_fields = [(''tenant'', JObj [(''name'', JStr ''Bo Diaz'')])]"

definition syntax_error :: thrown where
  "syntax_error = ErrorObj ''Unexpected end of JSON input''
                           ''SyntaxError: Unexpected end of JSON input at JSON.parse''"

definition stub_parse :: "string option \<Rightarrow> thrown + json" where
  "stub_parse s =
     (if s = Some lease_text then Inr (JObj lease_fields)
      else if s = Some token_text then Inr (JObj token_fields)
      else if s = Some incomplete_text then Inr (JObj incomplete_fields)
      else if s = Some null_text then Inr JNull
      else Inl syntax_error)"

definition required_issue :: "seg list \<Rightarrow> issue" where
  "required_issue p =
     \<lparr>issue_before = [(''code'', JStr ''invalid_type''), (''expected'', JStr ''object''),
                        (''received'', JStr ''undefined'')],
      issue_path = p,
      issue_after = [(''message'', JStr ''Required'')]\<rparr>"

definition stub_input_schema :: "json \<Rightarrow> issue list + json" where
  "stub_input_schema v =
     (case v of
        JObj ps \<Rightarrow>
          (let missing = filter (\<lambda>k. map_of ps k = None) [''landlord'', ''tenant'', ''financials'']
           in if missing = [] then Inr v else Inl (map (\<lambda>k. required_issue [Key k]) missing))
      | _ \<Rightarrow> Inl [required_issue []])"

definition stub_output_schema :: "json \<Rightarrow> issue list + json" where
  "stub_output_schema v =
     (case v of
        JObj ps \<Rightarrow>
          (case map_of ps ''financials'' of
             Some (JObj fs) \<Rightarrow>
               if map_of fs ''monthlyRent'' = None
               then Inl [required_issue [Key ''financials'', Key ''monthlyRent'']]
               else Inr v
           | _ \<Rightarrow> Inl [required_issue [Key ''financials'']])
      | _ \<Rightarrow> Inl [required_issue []])"

definition stub_usage :: json where
  "stub_usage = JObj [(''promptTokens'', JNum 812), (''completionTokens'', JNum 1533)]"

definition stub_cost :: json where
  "stub_cost = JNum (47 / 10000)"

definition echoed :: "json \<Rightarrow> generation" where
  "echoed input = \<lparr>leaseData = input, tokenUsage = stub_usage, estimatedCost = stub_cost\<rparr>"

definition echo_provider :: provider where
  "echo_provider = \<lparr>generateLease = (\<lambda>input. Inr (echoed input))\<rparr>"

text \<open>A backend whose lease lacks \<^verbatim>\<open>financials.monthlyRent\<close>.\<close>

definition forgotten :: generation where
  "forgotten =
     \<lparr>leaseData = JObj [(''landlord'', JObj [(''name'', JStr ''Ann Lee'')]),
                         (''financials'', JObj [(''deposit'', JNum 1200)])],
      tokenUsage = stub_usage, estimatedCost = stub_cost\<rparr>"

definition forgetful_provider :: provider where
  "forgetful_provider = \<lparr>generateLease = (\<lambda>input. Inr forgotten)\<rparr>"

definition refused :: thrown where
  "refused = ErrorObj ''connect ECONNREFUSED 10.0.0.5:443''
                      ''Error: connect ECONNREFUSED 10.0.0.5:443 at TCPConnectWrap.afterConnect''"

definition unreachable_provider :: provider where
  "unreachable_provider = \<lparr>generateLease = (\<lambda>input. Inl refused)\<rparr>"

definition allowed :: rate_limit where
  "allowed = \<lparr>rl_success = True, rl_status = 200, rl_headers = Map.empty, rl_error = None,
              rl_remaining = 9, rl_resetTime = 1700000060000\<rparr>"

definition denied :: rate_limit where
  "denied = \<lparr>rl_success = False, rl_status = 429,
             rl_headers = [''X-Rate-Limit-Remaining'' \<mapsto> ''0'',
                           ''X-Rate-Limit-Reset'' \<mapsto> ''1700000060000''],
             rl_error = Some (JStr ''Rate limit exceeded''),
             rl_remaining = 0, rl_resetTime = 1700000060000\<rparr>"

text \<open>A decision over quota whose headers name the one origin the limiter allows.\<close>

definition denied_for_origin :: rate_limit where
  "denied_for_origin =
     denied\<lparr>rl_headers := [''Retry-After'' \<mapsto> ''60'',
                             ''Access-Control-Allow-Origin'' \<mapsto> ''https://leases.example'']\<rparr>"

definition stub_env :: env where
  "stub_env =
     \<lparr>rateLimitMiddleware = (\<lambda>ev. Inr allowed),
      JSON_parse = stub_parse,
      nullPropertyError = ErrorObj ''Cannot read properties of null''
                                   ''TypeError: Cannot read properties of null'',
      isCaptchaRequired = Inr False,
      verifyCaptcha = (\<lambda>token. Inr (token = Some (JStr ''tok-0''))),
      LeaseInputSchema_safeParse = stub_input_schema,
      createLLMProvider = Inr echo_provider,
      LeaseOutputSchema_safeParse = stub_output_schema,
      logTokenUsage = (\<lambda>usage. Inr ()),
      trackDailyCost = (\<lambda>cost. Inr ()),
      generateLeaseDocx = (\<lambda>lease. Inr [0x50, 0x4B, 0x03, 0x04]),
      getDocumentMimeType = (\<lambda>format.
        ''application/vnd.openxmlformats-officedocument.wordprocessingml.document''),
      getDocumentExtension = (\<lambda>format. ''.'' @ format),
      Date_now = 1700000000000,
      Date_toISOString = ''2023-11-14T22:13:20.000Z'',
      NODE_ENV = Some ''production''\<rparr>"

definition render_error :: thrown where
  "render_error = ErrorObj ''Template not found: lease.docx''
                           ''Error: Template not found: lease.docx at generateLeaseDocx''"

text \<open>Variations of the stub: the challenge switched on, the limiter over quota, a
  backend that forgets the rent, a backend that cannot be reached, a renderer that
  fails, and the development mode.\<close>

definition challenge_env :: env where
  "challenge_env = stub_env\<lparr>isCaptchaRequired := Inr True\<rparr>"

definition limited_env :: env where
  "limited_env = stub_env\<lparr>rateLimitMiddleware := (\<lambda>ev. Inr denied)\<rparr>"

definition origin_env :: env where
  "origin_env = stub_env\<lparr>rateLimitMiddleware := (\<lambda>ev. Inr denied_for_origin)\<rparr>"

definition forgetful_env :: env where
  "forgetful_env = stub_env\<lparr>createLLMProvider := Inr forgetful_provider\<rparr>"

definition unreachable_env :: env where
  "unreachable_env = stub_env\<lparr>createLLMProvider := Inr unreachable_provider\<rparr>"

definition unrendered_env :: env where
  "unrendered_env = stub_env\<lparr>generateLeaseDocx := (\<lambda>lease. Inl render_error)\<rparr>"

definition development_env :: env where
  "development_env = unreachable_env\<lparr>NODE_ENV := Some ''development''\<rparr>"

definition preflight :: http_event where
  "preflight = \<lparr>httpMethod = ''OPTIONS'', event_body = None, event_headers = Map.empty\<rparr>"

definition post :: "string \<Rightarrow> http_event" where
  "post b = \<lparr>httpMethod = ''POST'', event_body = Some b,
                event_headers = [''x-forwarded-for'' \<mapsto> ''203.0.113.7'']\<rparr>"

section \<open>Lemmas\<close>

subsection \<open>Lists, digits and the sequencing combinators\<close>

declare digits.simps [simp del]

lemmas run_defs = call_def emit_def attempt_def returns_def throws_def Let_def

lemmas handler_defs = handler_def try_catch_def try_block_def steps_2_to_7_def steps_3_to_7_def
  catch_block_def run_defs response_of_def trace_of_def

lemma stub_parse_simps:
  "stub_parse (Some lease_text) = Inr (JObj lease_fields)"
  "stub_parse (Some token_text) = Inr (JObj token_fields)"
  "stub_parse (Some incomplete_text) = Inr (JObj incomplete_fields)"
  "stub_parse (Some null_text) = Inr JNull"
  "stub_parse (Some broken_text) = Inl syntax_error"
  by (simp_all add: stub_parse_def lease_text_def token_text_def incomplete_text_def
        broken_text_def null_text_def)

lemma stub_env_simps:
  "rateLimitMiddleware stub_env = (\<lambda>ev. Inr allowed)"
  "JSON_parse stub_env = stub_parse"
  "nullPropertyError stub_env = ErrorObj ''Cannot read properties of null''
                                   ''TypeError: Cannot read properties of null''"
  "isCaptchaRequired stub_env = Inr False"
  "verifyCaptcha stub_env = (\<lambda>token. Inr (token = Some (JStr ''tok-0'')))"
  "LeaseInputSchema_safeParse stub_env = stub_input_schema"
  "createLLMProvider stub_env = Inr echo_provider"
  "LeaseOutputSchema_safeParse stub_env = stub_output_schema"
  "logTokenUsage stub_env = (\<lambda>usage. Inr ())"
  "trackDailyCost stub_env = (\<lambda>cost. Inr ())"
  "generateLeaseDocx stub_env = (\<lambda>lease. Inr [0x50, 0x4B, 0x03, 0x04])"
  "getDocumentMimeType stub_env = (\<lambda>format.
        ''application/vnd.openxmlformats-officedocument.wordprocessingml.document'')"
  "getDocumentExtension stub_env = (\<lambda>format. ''.'' @ format)"
  "Date_now stub_env = 1700000000000"
  "Date_toISOString stub_env = ''2023-11-14T22:13:20.000Z''"
  "NODE_ENV stub_env = Some ''production''"
  by (simp_all add: stub_env_def)

lemmas stub_defs = stub_env_simps post_def stub_parse_simps stub_input_schema_def
  stub_output_schema_def echo_provider_def forgetful_provider_def unreachable_provider_def
  lease_fields_def allowed_def denied_def token_fields_def incomplete_fields_def echoed_def
  forgotten_def challenge_env_def limited_env_def forgetful_env_def unreachable_env_def
  unrendered_env_def development_env_def required_issue_def preflight_def
  origin_env_def denied_for_origin_def

lemma ops_append: "ops (xs @ ys) = ops xs @ ops ys"
  by (induction xs) (auto split: option.splits)

lemma halts_append_console:
  "ops ys = [] \<Longrightarrow> list_all (\<lambda>e. \<not> failed e) ys \<Longrightarrow> halts_on_failure (xs @ ys) = halts_on_failure xs"
proof (induction xs)
  case Nil
  then show ?case by (induction ys) (auto split: option.splits)
next
  case (Cons x xs)
  then show ?case by (simp add: ops_append)
qed

lemma digit_nth: "i < 10 \<Longrightarrow> is_digit (''0123456789'' ! i)"
  unfolding is_digit_def by (rule nth_mem) simp

lemma digits_are_digits: "digits n \<noteq> [] \<and> list_all is_digit (digits n)"
proof (induction n rule: digits.induct)
  case (1 n)
  show ?case
  proof (cases "n < 10")
    case True
    then show ?thesis
      by (subst digits.simps, subst (2) digits.simps) (simp add: digit_nth)
  next
    case False
    have "is_digit (''0123456789'' ! (n mod 10))"
      by (rule digit_nth) simp
    with False 1 show ?thesis
      by (subst digits.simps, subst (2) digits.simps) simp
  qed
qed

lemma try_catch_emit:
  "try_catch env (emit e k) = (fst (try_catch env k), e # snd (try_catch env k))"
  by (cases k; cases "fst k") (simp_all add: try_catch_def emit_def catch_block_def)

lemma try_catch_returns: "try_catch env (returns r) = (r, [])"
  by (simp add: try_catch_def returns_def)

lemma try_catch_throws: "try_catch env (throws e) = catch_block env e"
  by (simp add: try_catch_def throws_def catch_block_def)

lemma at_challenge:
  assumes "reaches_challenge env ev rl b"
  shows "response_of env ev = fst (try_catch env (steps_2_to_7 env rl b))"
    and "trace_of env ev = RateLimitMiddleware (Inr rl) # ConsoleLog (ReceivedBody b)
           # snd (try_catch env (steps_2_to_7 env rl b))"
  using assms
  by (simp_all add: reaches_challenge_def response_of_def trace_of_def handler_def try_block_def
        call_def attempt_def Let_def try_catch_emit)

lemma challenge_passed_steps:
  assumes "challenge_passed env b"
  shows "try_catch env (steps_2_to_7 env rl b)
         = (fst (try_catch env (steps_3_to_7 env rl b)),
            challenge_events env b @ snd (try_catch env (steps_3_to_7 env rl b)))"
  using assms
  by (auto simp add: challenge_passed_def challenge_events_def steps_2_to_7_def
        call_def attempt_def Let_def try_catch_emit split: sum.splits if_splits)

lemma at_validation:
  assumes "reaches_challenge env ev rl b" and "challenge_passed env b"
  shows "response_of env ev = fst (try_catch env (steps_3_to_7 env rl b))"
    and "trace_of env ev = RateLimitMiddleware (Inr rl) # ConsoleLog (ReceivedBody b)
           # challenge_events env b @ snd (try_catch env (steps_3_to_7 env rl b))"
  using at_challenge[OF assms(1)] challenge_passed_steps[OF assms(2)]
  by simp_all


lemma at_generation:
  assumes "reaches_generation env ev rl b input"
  shows "response_of env ev = fst (try_catch env (steps_3_to_7 env rl b))"
    and "trace_of env ev = RateLimitMiddleware (Inr rl) # ConsoleLog (ReceivedBody b)
           # challenge_events env b @ snd (try_catch env (steps_3_to_7 env rl b))"
    and "LeaseInputSchema_safeParse env b = Inr input"
  using assms at_validation[of env ev rl b]
  by (simp_all add: reaches_generation_def)

lemma token_missing:
  assumes "reaches_challenge env ev rl b" and "isCaptchaRequired env = Inr True"
    and "captchaToken env b = Inr token" and "\<not> truthy token"
  shows "handler env ev = (captcha_missing_response,
      [RateLimitMiddleware (Inr rl), ConsoleLog (ReceivedBody b), IsCaptchaRequired (Inr True)])"
  using assms at_challenge[OF assms(1)]
  by (simp add: prod_eq_iff response_of_def trace_of_def steps_2_to_7_def call_def attempt_def Let_def
       try_catch_emit try_catch_returns)

lemma token_rejected:
  assumes "reaches_challenge env ev rl b" and "isCaptchaRequired env = Inr True"
    and "captchaToken env b = Inr token" and "truthy token"
    and "verifyCaptcha env token = Inr False"
  shows "handler env ev = (captcha_failed_response,
      [RateLimitMiddleware (Inr rl), ConsoleLog (ReceivedBody b), IsCaptchaRequired (Inr True),
       VerifyCaptcha token (Inr False)])"
  using assms at_challenge[OF assms(1)]
  by (simp add: prod_eq_iff response_of_def trace_of_def steps_2_to_7_def call_def attempt_def Let_def
       try_catch_emit try_catch_returns)

lemma input_rejected:
  assumes "reaches_challenge env ev rl b" and "challenge_passed env b"
    and "LeaseInputSchema_safeParse env b = Inl errors"
  shows "response_of env ev = invalid_input_response errors"
    and "trace_of env ev = RateLimitMiddleware (Inr rl) # ConsoleLog (ReceivedBody b)
           # challenge_events env b
           @ [InputSafeParse b (Inl errors), ConsoleError (InputValidationFailed errors)]"
  using assms(3) at_validation[OF assms(1,2)]
  by (simp_all add: steps_3_to_7_def Let_def try_catch_emit try_catch_returns)

lemma generation_throws:
  assumes "reaches_generation env ev rl b input" and "generation_of env input = Inl e"
  shows "response_of env ev = internal_error_response env e"
    and "ops (trace_of env ev) = RateLimit # ops (challenge_events env b)
           @ InputValidate # SelectBackend # (if isl (createLLMProvider env) then [] else [Generate])"
  using assms(2) at_generation[OF assms(1)]
  by (auto simp add: steps_3_to_7_def generation_of_def Let_def call_def attempt_def ops_append
        try_catch_emit try_catch_throws catch_block_def split: sum.splits)

lemma output_rejected:
  assumes "reaches_generation env ev rl b input" and "generation_of env input = Inr g"
    and "LeaseOutputSchema_safeParse env (leaseData g) = Inl errors"
  shows "response_of env ev = invalid_output_response errors"
    and "ops (trace_of env ev) = RateLimit # ops (challenge_events env b)
           @ [InputValidate, SelectBackend, Generate, OutputValidate]"
  using assms(2,3) at_generation[OF assms(1)]
  by (auto simp add: steps_3_to_7_def generation_of_def Let_def call_def attempt_def ops_append
        try_catch_emit try_catch_returns split: sum.splits)


lemma after_output_validation:
  assumes "passes_output_validation env ev rl b input g"
  shows "reaches_generation env ev rl b input"
    and "\<exists>p. createLLMProvider env = Inr p \<and> generateLease p input = Inr g"
    and "\<exists>out. LeaseOutputSchema_safeParse env (leaseData g) = Inr out"
  using assms
  by (cases "LeaseOutputSchema_safeParse env (leaseData g)";
      auto simp add: passes_output_validation_def generation_of_def split: sum.splits)+

lemma document_path:
  assumes "passes_output_validation env ev rl b input g"
    and "logTokenUsage env (tokenUsage g) = Inr ()"
    and "trackDailyCost env (estimatedCost g) = Inr ()"
    and "generateLeaseDocx env (leaseData g) = Inr docx"
  shows "response_of env ev = document_response env rl docx"
    and "ops (trace_of env ev) = RateLimit # ops (challenge_events env b) @ order_from_validation"
  using assms(2-) after_output_validation[OF assms(1)] at_generation[of env ev rl b input]
  by (auto simp add: steps_3_to_7_def Let_def call_def attempt_def ops_append order_from_validation_def
        try_catch_emit try_catch_returns)

lemma render_throws:
  assumes "passes_output_validation env ev rl b input g"
    and "logTokenUsage env (tokenUsage g) = Inr ()"
    and "trackDailyCost env (estimatedCost g) = Inr ()"
    and "generateLeaseDocx env (leaseData g) = Inl e"
  shows "response_of env ev = internal_error_response env e"
    and "ops (trace_of env ev) = RateLimit # ops (challenge_events env b) @ order_from_validation"
  using assms(2-) after_output_validation[OF assms(1)] at_generation[of env ev rl b input]
  by (auto simp add: steps_3_to_7_def Let_def call_def attempt_def ops_append order_from_validation_def
        try_catch_emit try_catch_throws catch_block_def)

lemma telemetry_usage_event:
  assumes "passes_output_validation env ev rl b input g"
  shows "LogTokenUsage (tokenUsage g) (logTokenUsage env (tokenUsage g)) \<in> set (trace_of env ev)"
  using after_output_validation[OF assms] at_generation[of env ev rl b input]
  by (auto simp add: steps_3_to_7_def Let_def call_def attempt_def try_catch_emit)

lemma telemetry_cost_event:
  assumes "passes_output_validation env ev rl b input g"
    and "\<not> isl (logTokenUsage env (tokenUsage g))"
  shows "TrackDailyCost (estimatedCost g) (trackDailyCost env (estimatedCost g)) \<in> set (trace_of env ev)"
  using assms(2) after_output_validation[OF assms(1)] at_generation[of env ev rl b input]
  by (cases "logTokenUsage env (tokenUsage g)")
     (auto simp add: steps_3_to_7_def Let_def call_def attempt_def try_catch_emit)

lemma ops_try_catch: "ops (snd (try_catch env k)) = ops (snd k)"
  by (cases k; cases "fst k") (simp_all add: try_catch_def catch_block_def ops_append)

lemma ops_preflight_or_limited:
  assumes "x \<in> set (ops (trace_of env ev))" and "x \<noteq> RateLimit"
  shows "\<exists>rl b. reaches_challenge env ev rl b \<and> x \<in> set (ops (snd (steps_2_to_7 env rl b)))"
proof (cases "httpMethod ev = ''OPTIONS''")
  case True
  with assms show ?thesis by (simp add: trace_of_def handler_def)
next
  case False
  note post = this
  show ?thesis
  proof (cases "rateLimitMiddleware env ev")
    case (Inl e)
    with assms post show ?thesis
      by (simp add: trace_of_def handler_def ops_try_catch try_block_def run_defs)
  next
    case (Inr rl)
    note limited = this
    show ?thesis
    proof (cases "JSON_parse env (event_body ev)")
      case (Inl e)
      with assms post limited show ?thesis
        by (simp add: trace_of_def handler_def ops_try_catch try_block_def run_defs split: if_splits)
    next
      case (Inr b)
      with assms post limited show ?thesis
        by (auto simp add: trace_of_def handler_def ops_try_catch try_block_def run_defs
              reaches_challenge_def split: if_splits)
    qed
  qed
qed

lemma ops_after_challenge:
  assumes "x \<in> set (ops (snd (steps_2_to_7 env rl b)))"
    and "x \<noteq> ChallengeRequired" and "x \<noteq> ChallengeVerify"
  shows "challenge_passed env b \<and> x \<in> set (ops (snd (steps_3_to_7 env rl b)))"
  using assms
  by (auto simp add: steps_2_to_7_def challenge_passed_def run_defs split: sum.splits if_splits)

lemma ops_reach_backend:
  assumes "x \<in> set (ops (snd (steps_3_to_7 env rl b)))" and "x \<noteq> InputValidate"
  shows "\<exists>input. LeaseInputSchema_safeParse env b = Inr input"
  using assms
  by (auto simp add: steps_3_to_7_def run_defs split: sum.splits if_splits)

lemma ops_reach_telemetry:
  assumes "x \<in> set (ops (snd (steps_3_to_7 env rl b)))" 
    and "x \<in> {TelemetryUsage, TelemetryCost, Render}"
  shows "\<exists>input g. LeaseInputSchema_safeParse env b = Inr input
           \<and> generation_of env input = Inr g
           \<and> \<not> isl (LeaseOutputSchema_safeParse env (leaseData g))
           \<and> (x \<noteq> TelemetryUsage \<longrightarrow> \<not> isl (logTokenUsage env (tokenUsage g)))"
  using assms
  by (auto simp add: steps_3_to_7_def generation_of_def run_defs split: sum.splits if_splits)

subsection \<open>The order of the operations\<close>

lemma steps_3_trace:
  "prefix (ops (snd (steps_3_to_7 env rl b))) order_from_validation
   \<and> halts_on_failure (snd (steps_3_to_7 env rl b))
   \<and> (case fst (steps_3_to_7 env rl b) of
         Inl e \<Rightarrow> list_ex failed (snd (steps_3_to_7 env rl b))
       | Inr r \<Rightarrow> isBase64Encoded r \<longleftrightarrow>
           (ops (snd (steps_3_to_7 env rl b)) = order_from_validation
            \<and> \<not> list_ex failed (snd (steps_3_to_7 env rl b))))"
  by (auto simp: steps_3_to_7_def order_from_validation_def run_defs invalid_input_response_def
        invalid_output_response_def document_response_def split: sum.splits)

lemma steps_2_trace:
  "prefix (ops (snd (steps_2_to_7 env rl b))) (order_from_challenge (isCaptchaRequired env = Inr True))
   \<and> halts_on_failure (snd (steps_2_to_7 env rl b))
   \<and> (case fst (steps_2_to_7 env rl b) of
         Inl e \<Rightarrow> list_ex failed (snd (steps_2_to_7 env rl b))
                  \<or> ops (snd (steps_2_to_7 env rl b))
                      \<noteq> order_from_challenge (isCaptchaRequired env = Inr True)
       | Inr r \<Rightarrow> isBase64Encoded r \<longleftrightarrow>
           (ops (snd (steps_2_to_7 env rl b)) = order_from_challenge (isCaptchaRequired env = Inr True)
            \<and> \<not> list_ex failed (snd (steps_2_to_7 env rl b))))"
proof (cases "isCaptchaRequired env")
  case (Inl e)
  then show ?thesis
    by (simp add: steps_2_to_7_def run_defs order_from_challenge_def)
next
  case (Inr required)
  note req = this
  note S = steps_3_trace[of env rl b]
  show ?thesis
  proof (cases required)
    case False
    with req S show ?thesis
      by (cases "fst (steps_3_to_7 env rl b)")
         (simp_all add: steps_2_to_7_def run_defs order_from_challenge_def)
  next
    case True
    note on = this
    show ?thesis
    proof (cases "captchaToken env b")
      case (Inl e)
      with req on show ?thesis
        by (simp add: steps_2_to_7_def run_defs order_from_challenge_def order_from_validation_def)
    next
      case (Inr token)
      note tok = this
      show ?thesis
      proof (cases "truthy token")
        case False
        with req on tok show ?thesis
          by (simp add: steps_2_to_7_def run_defs order_from_challenge_def
                order_from_validation_def captcha_missing_response_def)
      next
        case True
        note present = this
        show ?thesis
        proof (cases "verifyCaptcha env token")
          case (Inl e)
          with req on tok present show ?thesis
            by (simp add: steps_2_to_7_def run_defs order_from_challenge_def
                  order_from_validation_def)
        next
          case (Inr ok)
          with req on tok present S show ?thesis
            by (cases ok; cases "fst (steps_3_to_7 env rl b)")
               (simp_all add: steps_2_to_7_def run_defs order_from_challenge_def
                  order_from_validation_def captcha_failed_response_def)
        qed
      qed
    qed
  qed
qed

lemma try_block_trace:
  "prefix (ops (snd (try_block env ev))) (pipeline_order (isCaptchaRequired env = Inr True))
   \<and> halts_on_failure (snd (try_block env ev))
   \<and> (case fst (try_block env ev) of
         Inl e \<Rightarrow> list_ex failed (snd (try_block env ev))
                  \<or> ops (snd (try_block env ev)) \<noteq> pipeline_order (isCaptchaRequired env = Inr True)
       | Inr r \<Rightarrow> isBase64Encoded r \<longleftrightarrow>
           (ops (snd (try_block env ev)) = pipeline_order (isCaptchaRequired env = Inr True)
            \<and> \<not> list_ex failed (snd (try_block env ev))))"
proof (cases "rateLimitMiddleware env ev")
  case (Inl e)
  then show ?thesis
    by (simp add: try_block_def run_defs pipeline_order_def)
next
  case (Inr rl)
  note limited = this
  show ?thesis
  proof (cases "rl_success rl")
    case False
    with limited show ?thesis
      by (simp add: try_block_def run_defs pipeline_order_def rate_limited_response_def)
  next
    case True
    note ok = this
    show ?thesis
    proof (cases "JSON_parse env (event_body ev)")
      case (Inl e)
      with limited ok show ?thesis
        by (simp add: try_block_def run_defs pipeline_order_def order_from_challenge_def)
    next
      case (Inr b)
      with limited ok steps_2_trace[of env rl b] show ?thesis
        by (cases "fst (steps_2_to_7 env rl b)")
           (simp_all add: try_block_def run_defs pipeline_order_def)
    qed
  qed
qed

subsection \<open>Which operations a request reaches\<close>

lemma ops_challenge_events:
  "ops (challenge_events env b) =
     ChallengeRequired
     # (if isCaptchaRequired env = Inr True
            \<and> (\<exists>token. captchaToken env b = Inr token \<and> truthy token)
        then [ChallengeVerify] else [])"
  by (auto simp add: challenge_events_def split: sum.splits)

lemma steps_2_ops:
  "ops (snd (steps_2_to_7 env rl b)) =
     ops (challenge_events env b)
     @ (if challenge_passed env b then ops (snd (steps_3_to_7 env rl b)) else [])"
  by (auto simp add: steps_2_to_7_def challenge_events_def challenge_passed_def run_defs
        split: sum.splits)

lemma steps_3_members:
  "InputValidate \<in> set (ops (snd (steps_3_to_7 env rl b)))"
  "SelectBackend \<in> set (ops (snd (steps_3_to_7 env rl b)))
     \<longleftrightarrow> (\<exists>input. LeaseInputSchema_safeParse env b = Inr input)"
  "Generate \<in> set (ops (snd (steps_3_to_7 env rl b)))
     \<longleftrightarrow> (\<exists>input. LeaseInputSchema_safeParse env b = Inr input)
          \<and> \<not> isl (createLLMProvider env)"
  "OutputValidate \<in> set (ops (snd (steps_3_to_7 env rl b)))
     \<longleftrightarrow> (\<exists>input g. LeaseInputSchema_safeParse env b = Inr input
            \<and> generation_of env input = Inr g)"
  "TelemetryUsage \<in> set (ops (snd (steps_3_to_7 env rl b)))
     \<longleftrightarrow> (\<exists>input g. LeaseInputSchema_safeParse env b = Inr input
            \<and> generation_of env input = Inr g
            \<and> \<not> isl (LeaseOutputSchema_safeParse env (leaseData g)))"
  "TelemetryCost \<in> set (ops (snd (steps_3_to_7 env rl b)))
     \<longleftrightarrow> (\<exists>input g. LeaseInputSchema_safeParse env b = Inr input
            \<and> generation_of env input = Inr g
            \<and> \<not> isl (LeaseOutputSchema_safeParse env (leaseData g))
            \<and> \<not> isl (logTokenUsage env (tokenUsage g)))"
  "Render \<in> set (ops (snd (steps_3_to_7 env rl b)))
     \<longleftrightarrow> (\<exists>input g. LeaseInputSchema_safeParse env b = Inr input
            \<and> generation_of env input = Inr g
            \<and> \<not> isl (LeaseOutputSchema_safeParse env (leaseData g))
            \<and> \<not> isl (logTokenUsage env (tokenUsage g))
            \<and> \<not> isl (trackDailyCost env (estimatedCost g)))"
  by (auto simp add: steps_3_to_7_def generation_of_def run_defs split: sum.splits)

lemma steps_3_not_members:
  "RateLimit \<notin> set (ops (snd (steps_3_to_7 env rl b)))"
  "ChallengeRequired \<notin> set (ops (snd (steps_3_to_7 env rl b)))"
  "ChallengeVerify \<notin> set (ops (snd (steps_3_to_7 env rl b)))"
  using steps_3_trace[of env rl b]
  by (auto simp add: prefix_def order_from_validation_def dest!: arg_cong[where f = set])

lemma reaches_challenge_unique:
  "reaches_challenge env ev rl b \<Longrightarrow> reaches_challenge env ev rl' b' \<Longrightarrow> rl' = rl \<and> b' = b"
  by (simp add: reaches_challenge_def)

lemma ops_of_request:
  "ops (trace_of env ev) =
     (if httpMethod ev = ''OPTIONS'' then []
      else RateLimit #
        (case rateLimitMiddleware env ev of
           Inl e \<Rightarrow> []
         | Inr rl \<Rightarrow>
             if \<not> rl_success rl then []
             else (case JSON_parse env (event_body ev) of
                     Inl e \<Rightarrow> []
                   | Inr b \<Rightarrow> ops (snd (steps_2_to_7 env rl b)))))"
  by (simp add: trace_of_def handler_def ops_try_catch try_block_def run_defs split: sum.splits)

lemma member_of_request:
  "x \<in> set (ops (trace_of env ev)) \<longleftrightarrow>
     httpMethod ev \<noteq> ''OPTIONS''
     \<and> (x = RateLimit
        \<or> (\<exists>rl b. reaches_challenge env ev rl b
              \<and> (x \<in> set (ops (challenge_events env b))
                 \<or> challenge_passed env b \<and> x \<in> set (ops (snd (steps_3_to_7 env rl b))))))"
  by (auto simp add: ops_of_request steps_2_ops reaches_challenge_def split: sum.splits if_splits)


lemma returned_unit: "\<not> isl r \<longleftrightarrow> r = Inr ()" for r :: "thrown + unit"
  by (cases r) simp_all

lemma steps_3_failure_body:
  "isBase64Encoded (fst (try_catch env (steps_3_to_7 env rl b)))
   \<or> field (body (fst (try_catch env (steps_3_to_7 env rl b)))) ''success'' = Some (JBool False)"
  by (auto simp add: steps_3_to_7_def run_defs try_catch_def catch_block_def
        invalid_input_response_def invalid_output_response_def internal_error_response_def
        document_response_def obj_def List.map_filter_def split: sum.splits)

lemma steps_2_failure_body:
  "isBase64Encoded (fst (try_catch env (steps_2_to_7 env rl b)))
   \<or> field (body (fst (try_catch env (steps_2_to_7 env rl b)))) ''success'' = Some (JBool False)"
proof (cases "challenge_passed env b")
  case True
  from challenge_passed_steps[OF this, of rl] steps_3_failure_body[of env rl b]
  show ?thesis by simp
next
  case False
  then show ?thesis
    by (auto simp add: challenge_passed_def steps_2_to_7_def run_defs try_catch_def catch_block_def
          captcha_missing_response_def captcha_failed_response_def internal_error_response_def
          obj_def List.map_filter_def split: sum.splits if_splits)
qed

lemma failure_body:
  assumes "httpMethod ev \<noteq> ''OPTIONS''"
  shows "isBase64Encoded (response_of env ev)
         \<or> field (body (response_of env ev)) ''success'' = Some (JBool False)"
proof (cases "\<exists>rl b. reaches_challenge env ev rl b")
  case True
  then obtain rl b where "reaches_challenge env ev rl b" by blast
  from at_challenge(1)[OF this] steps_2_failure_body[of env rl b] show ?thesis by simp
next
  case False
  with assms show ?thesis
    by (auto simp add: reaches_challenge_def handler_defs rate_limited_response_def
          internal_error_response_def obj_def List.map_filter_def split: sum.splits)
qed

lemma document_iff:
  "isBase64Encoded (response_of env ev) \<longleftrightarrow>
     (\<exists>rl b input g docx. passes_output_validation env ev rl b input g
        \<and> logTokenUsage env (tokenUsage g) = Inr ()
        \<and> trackDailyCost env (estimatedCost g) = Inr ()
        \<and> generateLeaseDocx env (leaseData g) = Inr docx
        \<and> response_of env ev = document_response env rl docx)"
proof
  assume doc: "isBase64Encoded (response_of env ev)"
  have post: "httpMethod ev \<noteq> ''OPTIONS''"
    using doc by (auto simp add: response_of_def handler_def preflight_response_def)
  have full: "ops (snd (try_block env ev)) = pipeline_order (isCaptchaRequired env = Inr True)"
    using doc post try_block_trace[of env ev]
    by (cases "try_block env ev"; cases "fst (try_block env ev)")
       (auto simp add: response_of_def handler_def try_catch_def catch_block_def
          internal_error_response_def)
  have "Render \<in> set (ops (trace_of env ev))"
    using post full
    by (simp add: trace_of_def handler_def ops_try_catch pipeline_order_def
          order_from_challenge_def order_from_validation_def)
  then obtain rl b input g where at: "reaches_challenge env ev rl b" "challenge_passed env b"
      "LeaseInputSchema_safeParse env b = Inr input" "generation_of env input = Inr g"
      "\<not> isl (LeaseOutputSchema_safeParse env (leaseData g))"
      "\<not> isl (logTokenUsage env (tokenUsage g))"
      "\<not> isl (trackDailyCost env (estimatedCost g))"
    by (auto simp add: member_of_request ops_challenge_events steps_3_members split: if_splits)
  then have passes: "passes_output_validation env ev rl b input g"
    by (simp add: passes_output_validation_def reaches_generation_def)
  from at have tele: "logTokenUsage env (tokenUsage g) = Inr ()"
    "trackDailyCost env (estimatedCost g) = Inr ()"
    by (simp_all add: returned_unit)
  show "\<exists>rl b input g docx. passes_output_validation env ev rl b input g
        \<and> logTokenUsage env (tokenUsage g) = Inr ()
        \<and> trackDailyCost env (estimatedCost g) = Inr ()
        \<and> generateLeaseDocx env (leaseData g) = Inr docx
        \<and> response_of env ev = document_response env rl docx"
  proof (cases "generateLeaseDocx env (leaseData g)")
    case (Inl e)
    from render_throws(1)[OF passes tele Inl] doc show ?thesis
      by (simp add: internal_error_response_def)
  next
    case (Inr docx)
    from document_path(1)[OF passes tele Inr] passes tele Inr show ?thesis
      by blast
  qed
next
  assume "\<exists>rl b input g docx. passes_output_validation env ev rl b input g
        \<and> logTokenUsage env (tokenUsage g) = Inr ()
        \<and> trackDailyCost env (estimatedCost g) = Inr ()
        \<and> generateLeaseDocx env (leaseData g) = Inr docx
        \<and> response_of env ev = document_response env rl docx"
  then show "isBase64Encoded (response_of env ev)"
    by (auto simp add: document_response_def)
qed

subsection \<open>Runs of the stub environment\<close>

lemmas eval_defs = handler_def try_catch_def try_block_def steps_2_to_7_def steps_3_to_7_def
  catch_block_def run_defs

lemma post_simps: "httpMethod (post b) = ''POST''" "event_body (post b) = Some b"
  by (simp_all add: post_def)

lemma run_lease:
  "handler stub_env (post lease_text) =
    (document_response stub_env allowed [0x50, 0x4B, 0x03, 0x04],
     [RateLimitMiddleware (Inr allowed), ConsoleLog (ReceivedBody (JObj lease_fields)),
      IsCaptchaRequired (Inr False),
      InputSafeParse (JObj lease_fields) (Inr (JObj lease_fields)),
      CreateLLMProvider None,
      GenerateLease (JObj lease_fields) (Inr (echoed (JObj lease_fields))),
      OutputSafeParse (JObj lease_fields) (Inr (JObj lease_fields)),
      LogTokenUsage stub_usage (Inr ()), TrackDailyCost stub_cost (Inr ()),
      GenerateLeaseDocx (JObj lease_fields) (Inr [0x50, 0x4B, 0x03, 0x04])])"
  by (simp add: eval_defs stub_defs)

lemma run_rejected_token:
  "handler challenge_env (post token_text) =
    (captcha_failed_response,
     [RateLimitMiddleware (Inr allowed), ConsoleLog (ReceivedBody (JObj token_fields)),
      IsCaptchaRequired (Inr True), VerifyCaptcha (Some (JStr ''tok-1'')) (Inr False)])"
  by (simp add: eval_defs stub_defs)

lemma run_missing_token:
  "handler challenge_env (post lease_text) =
    (captcha_missing_response,
     [RateLimitMiddleware (Inr allowed), ConsoleLog (ReceivedBody (JObj lease_fields)),
      IsCaptchaRequired (Inr True)])"
  by (simp add: eval_defs stub_defs)

lemma run_null_body:
  "handler challenge_env (post null_text) =
    (internal_error_response challenge_env (nullPropertyError stub_env),
     [RateLimitMiddleware (Inr allowed), ConsoleLog (ReceivedBody JNull),
      IsCaptchaRequired (Inr True),
      ConsoleError (LeaseGenerationError (nullPropertyError stub_env)),
      ConsoleError (ErrorDetails ''Cannot read properties of null''
        ''TypeError: Cannot read properties of null'' ''2023-11-14T22:13:20.000Z'')])"
  by (simp add: eval_defs stub_defs)

lemma run_broken:
  "handler stub_env (post broken_text) =
    (internal_error_response stub_env syntax_error,
     [RateLimitMiddleware (Inr allowed),
      ConsoleError (LeaseGenerationError syntax_error),
      ConsoleError (ErrorDetails ''Unexpected end of JSON input''
        ''SyntaxError: Unexpected end of JSON input at JSON.parse''
        ''2023-11-14T22:13:20.000Z'')])"
  by (simp add: eval_defs syntax_error_def stub_defs)

lemma run_incomplete:
  "handler stub_env (post incomplete_text) =
    (invalid_input_response [required_issue [Key ''landlord''], required_issue [Key ''financials'']],
     [RateLimitMiddleware (Inr allowed), ConsoleLog (ReceivedBody (JObj incomplete_fields)),
      IsCaptchaRequired (Inr False),
      InputSafeParse (JObj incomplete_fields)
        (Inl [required_issue [Key ''landlord''], required_issue [Key ''financials'']]),
      ConsoleError (InputValidationFailed
        [required_issue [Key ''landlord''], required_issue [Key ''financials'']])])"
  by (simp add: eval_defs stub_env_simps post_def stub_parse_simps stub_input_schema_def
        incomplete_fields_def allowed_def)

lemma run_null_unchallenged:
  "handler stub_env (post null_text) =
    (invalid_input_response [required_issue []],
     [RateLimitMiddleware (Inr allowed), ConsoleLog (ReceivedBody JNull),
      IsCaptchaRequired (Inr False),
      InputSafeParse JNull (Inl [required_issue []]),
      ConsoleError (InputValidationFailed [required_issue []])])"
  by (simp add: eval_defs stub_env_simps post_def stub_parse_simps stub_input_schema_def
        allowed_def)

lemma run_forgetful:
  "fst (handler forgetful_env (post lease_text)) =
     invalid_output_response [required_issue [Key ''financials'', Key ''monthlyRent'']]"
  by (simp add: eval_defs stub_env_simps post_def stub_parse_simps stub_input_schema_def
        stub_output_schema_def forgetful_env_def forgetful_provider_def forgotten_def
        lease_fields_def allowed_def)

lemma run_unreachable:
  "fst (handler unreachable_env (post lease_text))
     = internal_error_response unreachable_env refused"
  by (simp add: eval_defs stub_env_simps post_def stub_parse_simps stub_input_schema_def
        unreachable_env_def unreachable_provider_def lease_fields_def allowed_def)

lemma run_unrendered:
  "fst (handler unrendered_env (post lease_text))
     = internal_error_response unrendered_env render_error"
  by (simp add: eval_defs stub_env_simps post_def stub_parse_simps stub_input_schema_def
        stub_output_schema_def unrendered_env_def echo_provider_def echoed_def lease_fields_def
        allowed_def)

lemma issue_json_required:
  "issue_json (required_issue p) =
     JObj [(''code'', JStr ''invalid_type''), (''expected'', JStr ''object''),
           (''received'', JStr ''undefined''), (''path'', JArr (map seg_json p)),
           (''message'', JStr ''Required'')]"
  by (simp add: issue_json_def required_issue_def)

lemma required_issue_path: "issue_path (required_issue p) = p"
  by (simp add: required_issue_def)

lemmas run_simps = response_of_def trace_of_def run_lease run_rejected_token run_missing_token
  run_null_body run_broken run_incomplete run_null_unchallenged run_forgetful run_unreachable
  run_unrendered

lemmas response_defs = internal_error_response_def captcha_missing_response_def
  captcha_failed_response_def invalid_input_response_def invalid_output_response_def
  document_response_def missingFields_def obj_def List.map_filter_def issue_json_required
  required_issue_path

section \<open>The claims\<close>

text \<open>
  C1. For every request the operations of the stages are called in the order rate limit,
  challenge (the requirement query, then the verification call when the challenge is
  required), input validation, generation (the provider is constructed, then asked),
  output validation, telemetry (usage, then cost), rendering: the operations of a trace
  are an initial part of that order, and no operation follows one that failed (threw,
  or gave its gate's negative answer). Each operation is called exactly in the requests
  in which everything before it passed: the rate limit in every request but the
  preflight, the requirement query when the limiter allowed and the body parsed, the
  verification call when the challenge is required and the body has a truthy token,
  input validation when the challenge is passed or not required, and so on down to the
  renderer. The handler answers with the document exactly when the renderer returned the
  buffer, which is when all operations were called and none failed; every other answer
  to a request that is not the preflight is a terminal failure response, a JSON body
  with \<^verbatim>\<open>success: false\<close>.
\<close>

theorem stages_run_in_order:
  "prefix (ops (trace_of env ev)) (pipeline_order (isCaptchaRequired env = Inr True))
   \<and> halts_on_failure (trace_of env ev)
   \<and> (RateLimit \<in> set (ops (trace_of env ev)) \<longleftrightarrow> httpMethod ev \<noteq> ''OPTIONS'')
   \<and> (ChallengeRequired \<in> set (ops (trace_of env ev))
        \<longleftrightarrow> (\<exists>rl b. reaches_challenge env ev rl b))
   \<and> (ChallengeVerify \<in> set (ops (trace_of env ev))
        \<longleftrightarrow> (\<exists>rl b token. reaches_challenge env ev rl b \<and> isCaptchaRequired env = Inr True
               \<and> captchaToken env b = Inr token \<and> truthy token))
   \<and> (InputValidate \<in> set (ops (trace_of env ev))
        \<longleftrightarrow> (\<exists>rl b. reaches_challenge env ev rl b \<and> challenge_passed env b))
   \<and> (SelectBackend \<in> set (ops (trace_of env ev))
        \<longleftrightarrow> (\<exists>rl b input. reaches_generation env ev rl b input))
   \<and> (Generate \<in> set (ops (trace_of env ev))
        \<longleftrightarrow> (\<exists>rl b input. reaches_generation env ev rl b input)
             \<and> \<not> isl (createLLMProvider env))
   \<and> (OutputValidate \<in> set (ops (trace_of env ev))
        \<longleftrightarrow> (\<exists>rl b input g. reaches_generation env ev rl b input
               \<and> generation_of env input = Inr g))
   \<and> (TelemetryUsage \<in> set (ops (trace_of env ev))
        \<longleftrightarrow> (\<exists>rl b input g. passes_output_validation env ev rl b input g))
   \<and> (TelemetryCost \<in> set (ops (trace_of env ev))
        \<longleftrightarrow> (\<exists>rl b input g. passes_output_validation env ev rl b input g
               \<and> logTokenUsage env (tokenUsage g) = Inr ()))
   \<and> (Render \<in> set (ops (trace_of env ev))
        \<longleftrightarrow> (\<exists>rl b input g. passes_output_validation env ev rl b input g
               \<and> logTokenUsage env (tokenUsage g) = Inr ()
               \<and> trackDailyCost env (estimatedCost g) = Inr ()))
   \<and> (isBase64Encoded (response_of env ev)
        \<longleftrightarrow> (\<exists>rl b input g docx. passes_output_validation env ev rl b input g
               \<and> logTokenUsage env (tokenUsage g) = Inr ()
               \<and> trackDailyCost env (estimatedCost g) = Inr ()
               \<and> generateLeaseDocx env (leaseData g) = Inr docx
               \<and> response_of env ev = document_response env rl docx))
   \<and> (isBase64Encoded (response_of env ev) \<longleftrightarrow>
        ops (trace_of env ev) = pipeline_order (isCaptchaRequired env = Inr True)
        \<and> \<not> list_ex failed (trace_of env ev))
   \<and> (httpMethod ev \<noteq> ''OPTIONS'' \<and> \<not> isBase64Encoded (response_of env ev)
        \<longrightarrow> field (body (response_of env ev)) ''success'' = Some (JBool False))"
proof -
  have at_order: "prefix (ops (trace_of env ev)) (pipeline_order (isCaptchaRequired env = Inr True))
     \<and> halts_on_failure (trace_of env ev)
     \<and> (isBase64Encoded (response_of env ev) \<longleftrightarrow>
          ops (trace_of env ev) = pipeline_order (isCaptchaRequired env = Inr True)
          \<and> \<not> list_ex failed (trace_of env ev))"
  proof (cases "httpMethod ev = ''OPTIONS''")
    case True
    then show ?thesis
      by (simp add: handler_def response_of_def trace_of_def preflight_response_def
            pipeline_order_def)
  next
    case False
    show ?thesis
    proof (cases "try_block env ev")
      case (Pair out tr)
      with False try_block_trace[of env ev] show ?thesis
        by (cases out)
           (auto simp add: handler_def try_catch_def response_of_def trace_of_def catch_block_def
              internal_error_response_def ops_append halts_append_console)
    qed
  qed
  have at_limit: "RateLimit \<in> set (ops (trace_of env ev)) \<longleftrightarrow> httpMethod ev \<noteq> ''OPTIONS''"
    by (simp add: member_of_request)
  have at_required: "ChallengeRequired \<in> set (ops (trace_of env ev))
        \<longleftrightarrow> (\<exists>rl b. reaches_challenge env ev rl b)"
    by (auto simp add: member_of_request ops_challenge_events steps_3_not_members
          reaches_challenge_def)
  have at_verify: "ChallengeVerify \<in> set (ops (trace_of env ev))
        \<longleftrightarrow> (\<exists>rl b token. reaches_challenge env ev rl b \<and> isCaptchaRequired env = Inr True
               \<and> captchaToken env b = Inr token \<and> truthy token)"
    by (auto simp add: member_of_request ops_challenge_events steps_3_not_members
          reaches_challenge_def split: if_splits)
  have at_validate: "InputValidate \<in> set (ops (trace_of env ev))
        \<longleftrightarrow> (\<exists>rl b. reaches_challenge env ev rl b \<and> challenge_passed env b)"
    by (auto simp add: member_of_request ops_challenge_events steps_3_members
          reaches_challenge_def split: if_splits)
  have at_select: "SelectBackend \<in> set (ops (trace_of env ev))
        \<longleftrightarrow> (\<exists>rl b input. reaches_generation env ev rl b input)"
    by (auto simp add: member_of_request ops_challenge_events steps_3_members
          reaches_generation_def reaches_challenge_def split: if_splits)
  have at_generate: "Generate \<in> set (ops (trace_of env ev))
        \<longleftrightarrow> (\<exists>rl b input. reaches_generation env ev rl b input)
             \<and> \<not> isl (createLLMProvider env)"
    by (auto simp add: member_of_request ops_challenge_events steps_3_members
          reaches_generation_def reaches_challenge_def split: if_splits)
  have at_output: "OutputValidate \<in> set (ops (trace_of env ev))
        \<longleftrightarrow> (\<exists>rl b input g. reaches_generation env ev rl b input
               \<and> generation_of env input = Inr g)"
    by (auto simp add: member_of_request ops_challenge_events steps_3_members
          reaches_generation_def reaches_challenge_def split: if_splits)
  have at_usage: "TelemetryUsage \<in> set (ops (trace_of env ev))
        \<longleftrightarrow> (\<exists>rl b input g. passes_output_validation env ev rl b input g)"
    by (auto simp add: member_of_request ops_challenge_events steps_3_members
          passes_output_validation_def reaches_generation_def reaches_challenge_def
          split: if_splits)
  have at_cost: "TelemetryCost \<in> set (ops (trace_of env ev))
        \<longleftrightarrow> (\<exists>rl b input g. passes_output_validation env ev rl b input g
               \<and> logTokenUsage env (tokenUsage g) = Inr ())"
    by (auto simp add: member_of_request ops_challenge_events steps_3_members returned_unit
          passes_output_validation_def reaches_generation_def reaches_challenge_def
          split: if_splits)
  have at_render: "Render \<in> set (ops (trace_of env ev))
        \<longleftrightarrow> (\<exists>rl b input g. passes_output_validation env ev rl b input g
               \<and> logTokenUsage env (tokenUsage g) = Inr ()
               \<and> trackDailyCost env (estimatedCost g) = Inr ())"
    by (auto simp add: member_of_request ops_challenge_events steps_3_members returned_unit
          passes_output_validation_def reaches_generation_def reaches_challenge_def
          split: if_splits)
  note document = document_iff[of env ev]
  have at_terminal: "httpMethod ev \<noteq> ''OPTIONS'' \<and> \<not> isBase64Encoded (response_of env ev)
        \<longrightarrow> field (body (response_of env ev)) ''success'' = Some (JBool False)"
    using failure_body[of ev env] by blast
  from at_order at_limit at_required at_verify at_validate at_select at_generate at_output
    at_usage at_cost at_render document at_terminal
  show ?thesis by (intro conjI) (simp_all only:)
qed

theorem stages_run_in_order_witness:
  "passes_output_validation stub_env (post lease_text) allowed (JObj lease_fields)
      (JObj lease_fields) (echoed (JObj lease_fields))
   \<and> logTokenUsage stub_env (tokenUsage (echoed (JObj lease_fields))) = Inr ()
   \<and> trackDailyCost stub_env (estimatedCost (echoed (JObj lease_fields))) = Inr ()
   \<and> Render \<in> set (ops (trace_of stub_env (post lease_text)))
   \<and> ops (trace_of stub_env (post lease_text))
       = [RateLimit, ChallengeRequired, InputValidate, SelectBackend, Generate, OutputValidate,
          TelemetryUsage, TelemetryCost, Render]
   \<and> isBase64Encoded (response_of stub_env (post lease_text))
   \<and> ops (trace_of challenge_env (post token_text))
       = [RateLimit, ChallengeRequired, ChallengeVerify]
   \<and> statusCode (response_of challenge_env (post token_text)) = 403
   \<and> field (body (response_of challenge_env (post token_text))) ''success'' = Some (JBool False)
   \<and> ops (trace_of challenge_env (post lease_text)) = [RateLimit, ChallengeRequired]
   \<and> statusCode (response_of challenge_env (post lease_text)) = 400
   \<and> ops (trace_of stub_env (post broken_text)) = [RateLimit]
   \<and> statusCode (response_of stub_env (post broken_text)) = 500"
proof -
  have passed: "passes_output_validation stub_env (post lease_text) allowed (JObj lease_fields)
      (JObj lease_fields) (echoed (JObj lease_fields))"
    and told: "logTokenUsage stub_env (tokenUsage (echoed (JObj lease_fields))) = Inr ()"
      "trackDailyCost stub_env (estimatedCost (echoed (JObj lease_fields))) = Inr ()"
    by (simp_all add: passes_output_validation_def reaches_generation_def reaches_challenge_def
          challenge_passed_def generation_of_def stub_defs)
  note rendering = stages_run_in_order [of stub_env "post lease_text",
      THEN conjunct2, THEN conjunct2, THEN conjunct2, THEN conjunct2, THEN conjunct2,
      THEN conjunct2, THEN conjunct2, THEN conjunct2, THEN conjunct2, THEN conjunct2,
      THEN conjunct2, THEN conjunct1]
  from rendering passed told have "Render \<in> set (ops (trace_of stub_env (post lease_text)))"
    by blast
  moreover have "ops (trace_of stub_env (post lease_text))
       = [RateLimit, ChallengeRequired, InputValidate, SelectBackend, Generate, OutputValidate,
          TelemetryUsage, TelemetryCost, Render]"
    "isBase64Encoded (response_of stub_env (post lease_text))"
    by (simp_all add: run_simps response_defs)
  moreover note terminal = stages_run_in_order [of challenge_env "post token_text",
      THEN conjunct2, THEN conjunct2, THEN conjunct2, THEN conjunct2, THEN conjunct2,
      THEN conjunct2, THEN conjunct2, THEN conjunct2, THEN conjunct2, THEN conjunct2,
      THEN conjunct2, THEN conjunct2, THEN conjunct2, THEN conjunct2]
  have "ops (trace_of challenge_env (post token_text))
       = [RateLimit, ChallengeRequired, ChallengeVerify]"
    "statusCode (response_of challenge_env (post token_text)) = 403"
    by (simp_all add: run_simps response_defs)
  moreover have "httpMethod (post token_text) \<noteq> ''OPTIONS''"
    "\<not> isBase64Encoded (response_of challenge_env (post token_text))"
    by (simp_all add: run_simps response_defs post_simps)
  with terminal
  have "field (body (response_of challenge_env (post token_text))) ''success'' = Some (JBool False)"
    by blast
  moreover have "ops (trace_of challenge_env (post lease_text)) = [RateLimit, ChallengeRequired]"
    "statusCode (response_of challenge_env (post lease_text)) = 400"
    "ops (trace_of stub_env (post broken_text)) = [RateLimit]"
    "statusCode (response_of stub_env (post broken_text)) = 500"
    by (simp_all add: run_simps response_defs)
  ultimately show ?thesis
    using passed told by simp
qed

text \<open>The statuses and payloads of the failure paths, for a body that is not
  \<^verbatim>\<open>null\<close> where the token is read.\<close>

lemma failure_statuses:
  "(reaches_challenge env ev rl b \<and> isCaptchaRequired env = Inr True
      \<and> captchaToken env b = Inr token \<and> \<not> truthy token
    \<longrightarrow> statusCode (response_of env ev) = 400
        \<and> field (body (response_of env ev)) ''error'' = Some (JStr ''Captcha token missing''))
   \<and> (reaches_challenge env ev rl b \<and> isCaptchaRequired env = Inr True
      \<and> captchaToken env b = Inr token \<and> truthy token \<and> verifyCaptcha env token = Inr False
    \<longrightarrow> statusCode (response_of env ev) = 403
        \<and> field (body (response_of env ev)) ''error'' = Some (JStr ''Captcha verification failed''))
   \<and> (reaches_challenge env ev rl b \<and> challenge_passed env b
      \<and> LeaseInputSchema_safeParse env b = Inl errors
    \<longrightarrow> statusCode (response_of env ev) = 400
        \<and> field (body (response_of env ev)) ''details'' = Some (JArr (map issue_json errors)))
   \<and> (reaches_generation env ev rl b input \<and> generation_of env input = Inr g
      \<and> LeaseOutputSchema_safeParse env (leaseData g) = Inl errors
    \<longrightarrow> statusCode (response_of env ev) = 422
        \<and> field (body (response_of env ev)) ''details'' = Some (JArr (map issue_json errors))
        \<and> field (body (response_of env ev)) ''message'' =
             Some (JStr (''Missing or invalid fields: ''
               @ join '', '' (map (\<lambda>err. join ''.'' (map seg_str (issue_path err))) errors)
               @ ''. Please try again.'')))
   \<and> (reaches_generation env ev rl b input \<and> generation_of env input = Inl e
    \<longrightarrow> statusCode (response_of env ev) = 500)
   \<and> (passes_output_validation env ev rl b input g
      \<and> logTokenUsage env (tokenUsage g) = Inr () \<and> trackDailyCost env (estimatedCost g) = Inr ()
      \<and> generateLeaseDocx env (leaseData g) = Inl e
    \<longrightarrow> statusCode (response_of env ev) = 500)"
proof (intro conjI impI; (elim conjE)?)
  assume "reaches_challenge env ev rl b" "isCaptchaRequired env = Inr True"
    "captchaToken env b = Inr token" "\<not> truthy token"
  from token_missing[OF this]
  show "statusCode (response_of env ev) = 400"
    and "field (body (response_of env ev)) ''error'' = Some (JStr ''Captcha token missing'')"
    by (simp_all add: response_of_def captcha_missing_response_def obj_def List.map_filter_def)
next
  assume "reaches_challenge env ev rl b" "isCaptchaRequired env = Inr True"
    "captchaToken env b = Inr token" "truthy token" "verifyCaptcha env token = Inr False"
  from token_rejected[OF this]
  show "statusCode (response_of env ev) = 403"
    and "field (body (response_of env ev)) ''error'' = Some (JStr ''Captcha verification failed'')"
    by (simp_all add: response_of_def captcha_failed_response_def obj_def List.map_filter_def)
next
  assume "reaches_challenge env ev rl b" "challenge_passed env b"
    "LeaseInputSchema_safeParse env b = Inl errors"
  from input_rejected(1)[OF this]
  show "statusCode (response_of env ev) = 400"
    and "field (body (response_of env ev)) ''details'' = Some (JArr (map issue_json errors))"
    by (simp_all add: invalid_input_response_def obj_def List.map_filter_def)
next
  assume "reaches_generation env ev rl b input" "generation_of env input = Inr g"
    "LeaseOutputSchema_safeParse env (leaseData g) = Inl errors"
  from output_rejected(1)[OF this]
  show "statusCode (response_of env ev) = 422"
    and "field (body (response_of env ev)) ''details'' = Some (JArr (map issue_json errors))"
    and "field (body (response_of env ev)) ''message'' =
             Some (JStr (''Missing or invalid fields: ''
               @ join '', '' (map (\<lambda>err. join ''.'' (map seg_str (issue_path err))) errors)
               @ ''. Please try again.''))"
    by (simp_all add: invalid_output_response_def missingFields_def obj_def List.map_filter_def)
next
  assume "reaches_generation env ev rl b input" "generation_of env input = Inl e"
  from generation_throws(1)[OF this]
  show "statusCode (response_of env ev) = 500"
    by (simp add: internal_error_response_def)
next
  assume "passes_output_validation env ev rl b input g"
    "logTokenUsage env (tokenUsage g) = Inr ()" "trackDailyCost env (estimatedCost g) = Inr ()"
    "generateLeaseDocx env (leaseData g) = Inl e"
  from render_throws(1)[OF this]
  show "statusCode (response_of env ev) = 500"
    by (simp add: internal_error_response_def)
qed

text \<open>
  C2. Each kind of failure has its status and payload: a missing challenge token 400, a
  rejected token 403, an input that fails the input schema 400 with the field-level
  issues, a generator output that fails the output schema 422 with the issues, their
  dotted paths and the request to try again, a failure thrown during generation or
  rendering 500. The code breaks this for the missing token: with the challenge required,
  a body that parses to \<^verbatim>\<open>null\<close> carries no token, and reading
  \<^verbatim>\<open>body.captchaToken\<close> (line 47) throws a TypeError that the
  \<^verbatim>\<open>catch\<close> block answers with 500. The same environment answers an object
  without a token with 400, and the other kinds of failure have the status and the
  payload the claim gives them.
\<close>

theorem missing_token_on_null_body:
  "JSON_parse challenge_env (event_body (post null_text)) = Inr JNull
   \<and> isCaptchaRequired challenge_env = Inr True
   \<and> captchaToken challenge_env JNull = Inl (nullPropertyError challenge_env)
   \<and> statusCode (response_of challenge_env (post null_text)) = 500
   \<and> body (response_of challenge_env (post null_text))
       = Json (JObj [(''success'', JBool False), (''error'', JStr ''Internal server error''),
           (''message'', JStr
              ''An unexpected error occurred: Cannot read properties of null. Please try again.'')])
   \<and> statusCode (response_of challenge_env (post lease_text)) = 400
   \<and> body (response_of challenge_env (post lease_text))
       = Json (JObj [(''success'', JBool False), (''error'', JStr ''Captcha token missing'')])
   \<and> statusCode (response_of challenge_env (post token_text)) = 403
   \<and> statusCode (response_of stub_env (post incomplete_text)) = 400
   \<and> body (response_of stub_env (post incomplete_text))
       = Json (JObj [(''success'', JBool False), (''error'', JStr ''Invalid input data''),
           (''details'', JArr
              [JObj [(''code'', JStr ''invalid_type''), (''expected'', JStr ''object''),
                     (''received'', JStr ''undefined''), (''path'', JArr [JStr ''landlord'']),
                     (''message'', JStr ''Required'')],
               JObj [(''code'', JStr ''invalid_type''), (''expected'', JStr ''object''),
                     (''received'', JStr ''undefined''), (''path'', JArr [JStr ''financials'']),
                     (''message'', JStr ''Required'')]])])
   \<and> statusCode (response_of forgetful_env (post lease_text)) = 422
   \<and> body (response_of forgetful_env (post lease_text))
       = Json (JObj [(''success'', JBool False), (''error'', JStr ''Invalid lease data generated''),
           (''message'', JStr
              ''Missing or invalid fields: financials.monthlyRent. Please try again.''),
           (''details'', JArr
              [JObj [(''code'', JStr ''invalid_type''), (''expected'', JStr ''object''),
                     (''received'', JStr ''undefined''),
                     (''path'', JArr [JStr ''financials'', JStr ''monthlyRent'']),
                     (''message'', JStr ''Required'')]])])
   \<and> statusCode (response_of unreachable_env (post lease_text)) = 500
   \<and> statusCode (response_of unrendered_env (post lease_text)) = 500"
proof -
  have "JSON_parse challenge_env (event_body (post null_text)) = Inr JNull"
    "isCaptchaRequired challenge_env = Inr True"
    "captchaToken challenge_env JNull = Inl (nullPropertyError challenge_env)"
    by (simp_all add: post_simps challenge_env_def stub_env_simps stub_parse_simps)
  moreover have "NODE_ENV challenge_env = Some ''production''"
    "errorMessage (nullPropertyError stub_env) = ''Cannot read properties of null''"
    by (simp_all add: challenge_env_def stub_env_simps)
  then have "statusCode (response_of challenge_env (post null_text)) = 500"
    "body (response_of challenge_env (post null_text))
       = Json (JObj [(''success'', JBool False), (''error'', JStr ''Internal server error''),
           (''message'', JStr
              ''An unexpected error occurred: Cannot read properties of null. Please try again.'')])"
    by (simp_all add: run_simps response_defs)
  moreover have "statusCode (response_of challenge_env (post lease_text)) = 400"
    "body (response_of challenge_env (post lease_text))
       = Json (JObj [(''success'', JBool False), (''error'', JStr ''Captcha token missing'')])"
    "statusCode (response_of challenge_env (post token_text)) = 403"
    "statusCode (response_of stub_env (post incomplete_text)) = 400"
    "body (response_of stub_env (post incomplete_text))
       = Json (JObj [(''success'', JBool False), (''error'', JStr ''Invalid input data''),
           (''details'', JArr
              [JObj [(''code'', JStr ''invalid_type''), (''expected'', JStr ''object''),
                     (''received'', JStr ''undefined''), (''path'', JArr [JStr ''landlord'']),
                     (''message'', JStr ''Required'')],
               JObj [(''code'', JStr ''invalid_type''), (''expected'', JStr ''object''),
                     (''received'', JStr ''undefined''), (''path'', JArr [JStr ''financials'']),
                     (''message'', JStr ''Required'')]])])"
    "statusCode (response_of forgetful_env (post lease_text)) = 422"
    "body (response_of forgetful_env (post lease_text))
       = Json (JObj [(''success'', JBool False), (''error'', JStr ''Invalid lease data generated''),
           (''message'', JStr
              ''Missing or invalid fields: financials.monthlyRent. Please try again.''),
           (''details'', JArr
              [JObj [(''code'', JStr ''invalid_type''), (''expected'', JStr ''object''),
                     (''received'', JStr ''undefined''),
                     (''path'', JArr [JStr ''financials'', JStr ''monthlyRent'']),
                     (''message'', JStr ''Required'')]])])"
    "statusCode (response_of unreachable_env (post lease_text)) = 500"
    "statusCode (response_of unrendered_env (post lease_text)) = 500"
    by (simp_all add: run_simps response_defs)
  ultimately show ?thesis by simp
qed

lemma rate_limited:
  assumes "httpMethod ev \<noteq> ''OPTIONS''" and "rateLimitMiddleware env ev = Inr rl"
    and "\<not> rl_success rl"
  shows "handler env ev = (rate_limited_response rl, [RateLimitMiddleware (Inr rl)])"
  using assms by (simp add: handler_defs)

text \<open>
  C3. When the rate-limit check of a request reports the quota exceeded (a decision as
  the spec has the limiter give it), the handler answers 429, the headers of the answer
  are the CORS headers overlaid with the decision's headers and so carry the remaining
  quota and the reset time, the rate-limit check is the only event of the request, and
  neither the provider's construction nor the generation call happens.
\<close>

theorem quota_exceeded_is_terminal:
  assumes "httpMethod ev \<noteq> ''OPTIONS''"
    and "rateLimitMiddleware env ev = Inr rl"
    and "quota_exceeded rl"
  shows "statusCode (response_of env ev) = 429
     \<and> headers (response_of env ev) = cors_headers ++ rl_headers rl
     \<and> headers (response_of env ev) ''X-Rate-Limit-Remaining'' = Some (toString (rl_remaining rl))
     \<and> headers (response_of env ev) ''X-Rate-Limit-Reset'' = Some (toString (rl_resetTime rl))
     \<and> trace_of env ev = [RateLimitMiddleware (Inr rl)]
     \<and> SelectBackend \<notin> set (ops (trace_of env ev))
     \<and> Generate \<notin> set (ops (trace_of env ev))"
proof -
  from assms(3) have "\<not> rl_success rl"
    by (simp add: quota_exceeded_def)
  from rate_limited[OF assms(1,2) this] assms(3) show ?thesis
    by (simp add: response_of_def trace_of_def rate_limited_response_def quota_exceeded_def
          map_add_def)
qed

theorem quota_exceeded_is_terminal_witness:
  "httpMethod (post lease_text) \<noteq> ''OPTIONS''
   \<and> rateLimitMiddleware limited_env (post lease_text) = Inr denied
   \<and> quota_exceeded denied
   \<and> statusCode (response_of limited_env (post lease_text)) = 429
   \<and> headers (response_of limited_env (post lease_text)) ''X-Rate-Limit-Remaining'' = Some ''0''
   \<and> headers (response_of limited_env (post lease_text)) ''X-Rate-Limit-Reset''
       = Some ''1700000060000''
   \<and> ops (trace_of limited_env (post lease_text)) = [RateLimit]"
  using quota_exceeded_is_terminal [of "post lease_text" limited_env denied]
  by (simp add: quota_exceeded_def toString_def digits.simps stub_defs)

text \<open>The two outcomes of the challenge for a body whose token can be read, and the
  absence of verification and backend calls in every request without a token.\<close>

lemma challenge_outcomes:
  "(isCaptchaRequired env = Inr True
      \<and> (\<forall>b token. JSON_parse env (event_body ev) = Inr b \<and> captchaToken env b = Inr token
            \<longrightarrow> \<not> truthy token)
    \<longrightarrow> ChallengeVerify \<notin> set (ops (trace_of env ev))
        \<and> SelectBackend \<notin> set (ops (trace_of env ev))
        \<and> Generate \<notin> set (ops (trace_of env ev)))
   \<and> (reaches_challenge env ev rl b \<and> isCaptchaRequired env = Inr True
      \<and> captchaToken env b = Inr token \<and> \<not> truthy token
    \<longrightarrow> statusCode (response_of env ev) = 400
        \<and> ops (trace_of env ev) = [RateLimit, ChallengeRequired])
   \<and> (reaches_challenge env ev rl b \<and> isCaptchaRequired env = Inr True
      \<and> captchaToken env b = Inr token \<and> truthy token \<and> verifyCaptcha env token = Inr False
    \<longrightarrow> statusCode (response_of env ev) = 403
        \<and> ops (trace_of env ev) = [RateLimit, ChallengeRequired, ChallengeVerify]
        \<and> count_list (ops (trace_of env ev)) ChallengeVerify = 1
        \<and> VerifyCaptcha token (Inr False) \<in> set (trace_of env ev)
        \<and> SelectBackend \<notin> set (ops (trace_of env ev))
        \<and> Generate \<notin> set (ops (trace_of env ev)))"
proof (intro conjI impI; (elim conjE)?)
  assume req: "isCaptchaRequired env = Inr True"
    and none: "\<forall>b token. JSON_parse env (event_body ev) = Inr b \<and> captchaToken env b = Inr token
            \<longrightarrow> \<not> truthy token"
  have *: "x \<notin> set (ops (trace_of env ev))" if "x \<noteq> RateLimit" "x \<noteq> ChallengeRequired" for x
  proof
    assume "x \<in> set (ops (trace_of env ev))"
    from ops_preflight_or_limited[OF this that(1)]
    obtain rl b where at: "reaches_challenge env ev rl b"
      and x: "x \<in> set (ops (snd (steps_2_to_7 env rl b)))" by blast
    from at have "JSON_parse env (event_body ev) = Inr b"
      by (simp add: reaches_challenge_def)
    with none have "\<not> truthy token" if "captchaToken env b = Inr token" for token
      using that by blast
    with x req that(2) show False
      by (cases "captchaToken env b") (simp_all add: steps_2_to_7_def run_defs)
  qed
  show "ChallengeVerify \<notin> set (ops (trace_of env ev))"
    and "SelectBackend \<notin> set (ops (trace_of env ev))"
    and "Generate \<notin> set (ops (trace_of env ev))"
    by (simp_all add: *)
next
  assume "reaches_challenge env ev rl b" "isCaptchaRequired env = Inr True"
    "captchaToken env b = Inr token" "\<not> truthy token"
  from token_missing[OF this]
  show "statusCode (response_of env ev) = 400"
    and "ops (trace_of env ev) = [RateLimit, ChallengeRequired]"
    by (simp_all add: response_of_def trace_of_def captcha_missing_response_def)
next
  assume "reaches_challenge env ev rl b" "isCaptchaRequired env = Inr True"
    "captchaToken env b = Inr token" "truthy token" "verifyCaptcha env token = Inr False"
  from token_rejected[OF this]
  show "statusCode (response_of env ev) = 403"
    and "ops (trace_of env ev) = [RateLimit, ChallengeRequired, ChallengeVerify]"
    and "count_list (ops (trace_of env ev)) ChallengeVerify = 1"
    and "VerifyCaptcha token (Inr False) \<in> set (trace_of env ev)"
    and "SelectBackend \<notin> set (ops (trace_of env ev))"
    and "Generate \<notin> set (ops (trace_of env ev))"
    by (simp_all add: response_of_def trace_of_def captcha_failed_response_def)
qed

text \<open>
  C4. With the challenge required, a request with no token is to be answered 400 without
  a call to the verification service or the backend, and a request whose token is
  rejected 403 after one verification call, without reaching the backend. The code
  breaks the first half: a request whose body parses to \<^verbatim>\<open>null\<close> arrives at the
  challenge, has no token, and is answered 500, because \<^verbatim>\<open>body.captchaToken\<close>
  (line 47) throws before the token is looked at. No verification or backend call is
  made there either. An object body without a token is answered 400 in the same
  environment, and with the challenge off the \<^verbatim>\<open>null\<close> body itself is answered 400
  by input validation.
\<close>

theorem null_body_reaches_challenge_without_token:
  "reaches_challenge challenge_env (post null_text) allowed JNull
   \<and> isCaptchaRequired challenge_env = Inr True
   \<and> captchaToken challenge_env JNull = Inl (nullPropertyError challenge_env)
   \<and> statusCode (response_of challenge_env (post null_text)) = 500
   \<and> ops (trace_of challenge_env (post null_text)) = [RateLimit, ChallengeRequired]
   \<and> reaches_challenge challenge_env (post lease_text) allowed (JObj lease_fields)
   \<and> captchaToken challenge_env (JObj lease_fields) = Inr None
   \<and> statusCode (response_of challenge_env (post lease_text)) = 400
   \<and> ops (trace_of challenge_env (post lease_text)) = [RateLimit, ChallengeRequired]
   \<and> statusCode (response_of stub_env (post null_text)) = 400"
proof -
  have "reaches_challenge challenge_env (post null_text) allowed JNull"
    "isCaptchaRequired challenge_env = Inr True"
    "captchaToken challenge_env JNull = Inl (nullPropertyError challenge_env)"
    "reaches_challenge challenge_env (post lease_text) allowed (JObj lease_fields)"
    "captchaToken challenge_env (JObj lease_fields) = Inr None"
    by (simp_all add: reaches_challenge_def post_simps challenge_env_def stub_env_simps
          stub_parse_simps allowed_def lease_fields_def)
  moreover have "statusCode (response_of challenge_env (post null_text)) = 500"
    "ops (trace_of challenge_env (post null_text)) = [RateLimit, ChallengeRequired]"
    "statusCode (response_of challenge_env (post lease_text)) = 400"
    "ops (trace_of challenge_env (post lease_text)) = [RateLimit, ChallengeRequired]"
    "statusCode (response_of stub_env (post null_text)) = 400"
    by (simp_all add: run_simps response_defs)
  ultimately show ?thesis by simp
qed

text \<open>
  C6. A request that passes every stage (the limiter allows it, the body parses, the
  challenge is passed or not required, both validations succeed, the provider generates,
  telemetry returns and the renderer returns the buffer) is answered 200 with the
  content type of the document format, the attachment file name
  \<^verbatim>\<open>lease-\<close> followed by the decimal digits of the current timestamp and the
  extension of the format, the remaining quota and the reset time of the rate-limit
  decision, and the renderer's bytes, base64-encoded, as the body.
\<close>

theorem document_response_on_success:
  assumes "passes_output_validation env ev rl b input g"
    and "logTokenUsage env (tokenUsage g) = Inr ()"
    and "trackDailyCost env (estimatedCost g) = Inr ()"
    and "generateLeaseDocx env (leaseData g) = Inr docx"
  shows "statusCode (response_of env ev) = 200
     \<and> headers (response_of env ev) ''Content-Type'' = Some (getDocumentMimeType env ''docx'')
     \<and> headers (response_of env ev) ''Content-Disposition''
         = Some (''attachment; filename='' @ [CHR 0x22] @ lease_filename env @ [CHR 0x22])
     \<and> lease_filename env = ''lease-'' @ digits (Date_now env) @ getDocumentExtension env ''docx''
     \<and> digits (Date_now env) \<noteq> [] \<and> list_all is_digit (digits (Date_now env))
     \<and> headers (response_of env ev) ''X-Rate-Limit-Remaining'' = Some (toString (rl_remaining rl))
     \<and> headers (response_of env ev) ''X-Rate-Limit-Reset'' = Some (toString (rl_resetTime rl))
     \<and> body (response_of env ev) = Base64 docx
     \<and> isBase64Encoded (response_of env ev)"
  using document_path(1)[OF assms] digits_are_digits[of "Date_now env"]
  by (simp add: document_response_def lease_filename_def cors_headers_def map_add_def)

theorem document_response_on_success_witness:
  "passes_output_validation stub_env (post lease_text) allowed (JObj lease_fields)
      (JObj lease_fields) (echoed (JObj lease_fields))
   \<and> logTokenUsage stub_env (tokenUsage (echoed (JObj lease_fields))) = Inr ()
   \<and> trackDailyCost stub_env (estimatedCost (echoed (JObj lease_fields))) = Inr ()
   \<and> generateLeaseDocx stub_env (leaseData (echoed (JObj lease_fields))) = Inr [0x50, 0x4B, 0x03, 0x04]
   \<and> statusCode (response_of stub_env (post lease_text)) = 200
   \<and> headers (response_of stub_env (post lease_text)) ''Content-Disposition''
       = Some (''attachment; filename='' @ [CHR 0x22] @ ''lease-1700000000000.docx'' @ [CHR 0x22])
   \<and> headers (response_of stub_env (post lease_text)) ''X-Rate-Limit-Remaining'' = Some ''9''
   \<and> headers (response_of stub_env (post lease_text)) ''X-Rate-Limit-Reset'' = Some ''1700000060000''
   \<and> body (response_of stub_env (post lease_text)) = Base64 [0x50, 0x4B, 0x03, 0x04]
   \<and> isBase64Encoded (response_of stub_env (post lease_text))"
  using document_response_on_success [of stub_env "post lease_text" allowed "JObj lease_fields"
      "JObj lease_fields" "echoed (JObj lease_fields)" "[0x50, 0x4B, 0x03, 0x04]"]
  by (simp add: passes_output_validation_def reaches_generation_def reaches_challenge_def
        challenge_passed_def generation_of_def lease_filename_def toString_def digits.simps
        stub_defs)

lemma caught:
  assumes "httpMethod ev \<noteq> ''OPTIONS''" and "fst (try_block env ev) = Inl error"
  shows "response_of env ev = internal_error_response env error"
    and "trace_of env ev = snd (try_block env ev)
           @ [ConsoleError (LeaseGenerationError error),
              ConsoleError (ErrorDetails (errorMessage error) (errorStack error)
                (Date_toISOString env))]"
  using assms
  by (cases "try_block env ev"; simp add: response_of_def trace_of_def handler_def try_catch_def
        catch_block_def)+

text \<open>
  C5, as amended. When the \<^verbatim>\<open>try\<close> block of a request throws, the answer is 500
  and its body has \<^verbatim>\<open>success\<close>, \<^verbatim>\<open>error\<close> and a \<^verbatim>\<open>message\<close> that
  quotes the exception's message in every runtime mode; the stack is the body's
  \<^verbatim>\<open>details\<close> in development mode and is left out in every other mode. Before the
  answer is returned the failure is written to the console twice, the second line with
  the message, the stack and the timestamp.
\<close>

theorem internal_error_body_and_log:
  assumes "httpMethod ev \<noteq> ''OPTIONS''" and "fst (try_block env ev) = Inl error"
  shows "statusCode (response_of env ev) = 500
     \<and> body (response_of env ev) =
         Json (JObj ([(''success'', JBool False),
                      (''error'', JStr ''Internal server error''),
                      (''message'', JStr (''An unexpected error occurred: '' @ errorMessage error
                                          @ ''. Please try again.''))]
                     @ (if NODE_ENV env = Some ''development''
                        then [(''details'', JStr (errorStack error))] else [])))
     \<and> field (body (response_of env ev)) ''details''
         = (if NODE_ENV env = Some ''development'' then Some (JStr (errorStack error)) else None)
     \<and> trace_of env ev = snd (try_block env ev)
           @ [ConsoleError (LeaseGenerationError error),
              ConsoleError (ErrorDetails (errorMessage error) (errorStack error)
                (Date_toISOString env))]"
  using caught[OF assms]
  by (simp add: internal_error_response_def obj_def List.map_filter_def)

theorem internal_error_body_and_log_witness:
  "httpMethod (post lease_text) \<noteq> ''OPTIONS''
   \<and> fst (try_block unreachable_env (post lease_text)) = Inl refused
   \<and> NODE_ENV unreachable_env = Some ''production''
   \<and> statusCode (response_of unreachable_env (post lease_text)) = 500
   \<and> field (body (response_of unreachable_env (post lease_text))) ''details'' = None
   \<and> last (trace_of unreachable_env (post lease_text))
       = ConsoleError (ErrorDetails ''connect ECONNREFUSED 10.0.0.5:443''
           ''Error: connect ECONNREFUSED 10.0.0.5:443 at TCPConnectWrap.afterConnect''
           ''2023-11-14T22:13:20.000Z'')
   \<and> fst (try_block development_env (post lease_text)) = Inl refused
   \<and> NODE_ENV development_env = Some ''development''
   \<and> field (body (response_of development_env (post lease_text))) ''details''
       = Some (JStr ''Error: connect ECONNREFUSED 10.0.0.5:443 at TCPConnectWrap.afterConnect'')"
  using internal_error_body_and_log [of "post lease_text" unreachable_env refused]
    internal_error_body_and_log [of "post lease_text" development_env refused]
  by (simp add: try_block_def steps_2_to_7_def steps_3_to_7_def run_defs refused_def stub_defs)

text \<open>
  C5 as stated fails: in production mode, with a backend that refuses the connection,
  the body of the 500 answer quotes the exception's message.
\<close>

theorem production_body_has_message_counterexample:
  "NODE_ENV unreachable_env = Some ''production''
   \<and> generation_of unreachable_env (JObj lease_fields) = Inl refused
   \<and> errorMessage refused = ''connect ECONNREFUSED 10.0.0.5:443''
   \<and> statusCode (response_of unreachable_env (post lease_text)) = 500
   \<and> field (body (response_of unreachable_env (post lease_text))) ''message''
       = Some (JStr ''An unexpected error occurred: connect ECONNREFUSED 10.0.0.5:443. Please try again.'')"
  by (simp add: handler_defs generation_of_def internal_error_response_def obj_def
        List.map_filter_def refused_def stub_defs)

text \<open>The answer to a parsed body that fails the input schema.\<close>

lemma invalid_input_is_bad_request:
  assumes "reaches_challenge env ev rl b" and "challenge_passed env b"
    and "LeaseInputSchema_safeParse env b = Inl errors"
  shows "statusCode (response_of env ev) = 400
     \<and> body (response_of env ev) =
         Json (JObj [(''success'', JBool False), (''error'', JStr ''Invalid input data''),
                     (''details'', JArr (map issue_json errors))])
     \<and> last (ops (trace_of env ev)) = InputValidate
     \<and> SelectBackend \<notin> set (ops (trace_of env ev))
     \<and> Generate \<notin> set (ops (trace_of env ev))"
proof -
  from assms(2) have "set (ops (challenge_events env b)) \<subseteq> {ChallengeRequired, ChallengeVerify}"
    by (auto simp add: challenge_events_def challenge_passed_def split: sum.splits if_splits)
  with input_rejected[OF assms] show ?thesis
    by (auto simp add: invalid_input_response_def obj_def List.map_filter_def ops_append)
qed

text \<open>
  C7. A request whose body is malformed or lacks required input, a body that is not
  parseable JSON included, is to be answered 400 with field-level detail and never 500.
  The code breaks this for the unparseable body: \<^verbatim>\<open>JSON.parse\<close> (line 42) throws
  inside the \<^verbatim>\<open>try\<close> block, and the \<^verbatim>\<open>catch\<close> block answers 500 with no
  field-level detail, after the rate-limit check alone. A body that parses and lacks
  required fields is answered 400 with the issues of the missing fields.
\<close>

theorem unparseable_body_is_internal_error:
  "JSON_parse stub_env (event_body (post broken_text)) = Inl syntax_error
   \<and> statusCode (response_of stub_env (post broken_text)) = 500
   \<and> body (response_of stub_env (post broken_text))
       = Json (JObj [(''success'', JBool False), (''error'', JStr ''Internal server error''),
           (''message'', JStr
              ''An unexpected error occurred: Unexpected end of JSON input. Please try again.'')])
   \<and> ops (trace_of stub_env (post broken_text)) = [RateLimit]
   \<and> JSON_parse stub_env (event_body (post incomplete_text)) = Inr (JObj incomplete_fields)
   \<and> statusCode (response_of stub_env (post incomplete_text)) = 400
   \<and> field (body (response_of stub_env (post incomplete_text))) ''details''
       = Some (JArr
              [JObj [(''code'', JStr ''invalid_type''), (''expected'', JStr ''object''),
                     (''received'', JStr ''undefined''), (''path'', JArr [JStr ''landlord'']),
                     (''message'', JStr ''Required'')],
               JObj [(''code'', JStr ''invalid_type''), (''expected'', JStr ''object''),
                     (''received'', JStr ''undefined''), (''path'', JArr [JStr ''financials'']),
                     (''message'', JStr ''Required'')]])"
proof -
  have "JSON_parse stub_env (event_body (post broken_text)) = Inl syntax_error"
    "JSON_parse stub_env (event_body (post incomplete_text)) = Inr (JObj incomplete_fields)"
    by (simp_all add: post_simps stub_env_simps stub_parse_simps)
  moreover have "NODE_ENV stub_env = Some ''production''"
    "errorMessage syntax_error = ''Unexpected end of JSON input''"
    by (simp_all add: stub_env_simps syntax_error_def)
  then have "statusCode (response_of stub_env (post broken_text)) = 500"
    "body (response_of stub_env (post broken_text))
       = Json (JObj [(''success'', JBool False), (''error'', JStr ''Internal server error''),
           (''message'', JStr
              ''An unexpected error occurred: Unexpected end of JSON input. Please try again.'')])"
    "ops (trace_of stub_env (post broken_text)) = [RateLimit]"
    by (simp_all add: run_simps response_defs)
  moreover have "statusCode (response_of stub_env (post incomplete_text)) = 400"
    "field (body (response_of stub_env (post incomplete_text))) ''details''
       = Some (JArr
              [JObj [(''code'', JStr ''invalid_type''), (''expected'', JStr ''object''),
                     (''received'', JStr ''undefined''), (''path'', JArr [JStr ''landlord'']),
                     (''message'', JStr ''Required'')],
               JObj [(''code'', JStr ''invalid_type''), (''expected'', JStr ''object''),
                     (''received'', JStr ''undefined''), (''path'', JArr [JStr ''financials'']),
                     (''message'', JStr ''Required'')]])"
    by (simp_all add: run_simps response_defs)
  ultimately show ?thesis by simp
qed

lemma count_list_distinct: "distinct xs \<Longrightarrow> count_list xs x = (if x \<in> set xs then 1 else 0)"
  by (induction xs) auto

lemma distinct_ops: "distinct (ops (trace_of env ev))"
proof (cases "httpMethod ev = ''OPTIONS''")
  case True
  then show ?thesis by (simp add: trace_of_def handler_def)
next
  case False
  then have "ops (trace_of env ev) = ops (snd (try_block env ev))"
    by (simp add: trace_of_def handler_def ops_try_catch)
  moreover have "prefix (ops (snd (try_block env ev)))
      (pipeline_order (isCaptchaRequired env = Inr True))"
    using try_block_trace[of env ev] by simp
  ultimately obtain zs
    where "pipeline_order (isCaptchaRequired env = Inr True) = ops (trace_of env ev) @ zs"
    by (auto simp add: prefix_def)
  moreover have "distinct (pipeline_order (isCaptchaRequired env = Inr True))"
    by (simp add: pipeline_order_def order_from_challenge_def order_from_validation_def)
  ultimately show ?thesis
    by (metis distinct_append)
qed

lemma backend_reached:
  assumes "x \<in> set (ops (trace_of env ev))"
    and "x \<in> {SelectBackend, Generate, OutputValidate, TelemetryUsage, TelemetryCost, Render}"
  shows "\<exists>rl b input. reaches_generation env ev rl b input
           \<and> x \<in> set (ops (snd (steps_3_to_7 env rl b)))"
proof -
  from assms(2) have ne: "x \<noteq> RateLimit" "x \<noteq> ChallengeRequired" "x \<noteq> ChallengeVerify"
    "x \<noteq> InputValidate" by auto
  from ops_preflight_or_limited[OF assms(1) ne(1)]
  obtain rl b where at: "reaches_challenge env ev rl b"
    and x: "x \<in> set (ops (snd (steps_2_to_7 env rl b)))" by blast
  from ops_after_challenge[OF x ne(2,3)]
  have passed: "challenge_passed env b" and y: "x \<in> set (ops (snd (steps_3_to_7 env rl b)))"
    by simp_all
  from ops_reach_backend[OF y ne(4)]
  obtain input where "LeaseInputSchema_safeParse env b = Inr input" by blast
  with at passed y show ?thesis
    by (auto simp add: reaches_generation_def)
qed

lemma backend_selected:
  assumes "reaches_generation env ev rl b input"
  shows "CreateLLMProvider (case createLLMProvider env of Inl e \<Rightarrow> Some e | Inr p \<Rightarrow> None)
           \<in> set (trace_of env ev)"
    and "SelectBackend \<in> set (ops (trace_of env ev))"
    and "createLLMProvider env = Inr p \<Longrightarrow>
           GenerateLease input (generateLease p input) \<in> set (trace_of env ev)"
  using at_generation[OF assms]
  by (auto simp add: steps_3_to_7_def call_def attempt_def Let_def try_catch_emit ops_append)

text \<open>
  C8, as amended. The backend is selected inside the handling of a request:
  \<^verbatim>\<open>createLLMProvider\<close> is called exactly once in every request that passes input
  validation and in no other request, and the generation call of the request is made on
  the provider that this call returned.
\<close>

theorem backend_is_selected_in_each_request:
  "(SelectBackend \<in> set (ops (trace_of env ev))
      \<longleftrightarrow> (\<exists>rl b input. reaches_generation env ev rl b input))
   \<and> count_list (ops (trace_of env ev)) SelectBackend
       = (if (\<exists>rl b input. reaches_generation env ev rl b input) then 1 else 0)
   \<and> (reaches_generation env ev rl b input \<and> createLLMProvider env = Inr p
      \<longrightarrow> CreateLLMProvider None \<in> set (trace_of env ev)
          \<and> GenerateLease input (generateLease p input) \<in> set (trace_of env ev))"
proof -
  have iff: "SelectBackend \<in> set (ops (trace_of env ev))
      \<longleftrightarrow> (\<exists>rl b input. reaches_generation env ev rl b input)"
    using backend_reached[where x = SelectBackend and env = env and ev = ev]
      backend_selected(2)[of env ev]
    by blast
  moreover have "count_list (ops (trace_of env ev)) SelectBackend
       = (if (\<exists>rl b input. reaches_generation env ev rl b input) then 1 else 0)"
    using count_list_distinct[OF distinct_ops[of env ev]] iff
    by simp
  moreover have "CreateLLMProvider None \<in> set (trace_of env ev)
          \<and> GenerateLease input (generateLease p input) \<in> set (trace_of env ev)"
    if "reaches_generation env ev rl b input" "createLLMProvider env = Inr p"
    using backend_selected(1,3)[OF that(1)] that(2) by simp
  ultimately show ?thesis by blast
qed

text \<open>
  C8 as stated fails: handling a request that passes input validation calls
  \<^verbatim>\<open>createLLMProvider\<close>; with the stub collaborators it is the fifth event of the
  request.
\<close>

theorem backend_selected_per_request_counterexample:
  "httpMethod (post lease_text) = ''POST''
   \<and> trace_of stub_env (post lease_text) ! 4 = CreateLLMProvider None
   \<and> SelectBackend \<in> set (ops (trace_of stub_env (post lease_text)))"
  by (simp add: handler_defs stub_defs)


theorem backend_is_selected_in_each_request_witness:
  "reaches_generation stub_env (post lease_text) allowed (JObj lease_fields) (JObj lease_fields)
   \<and> createLLMProvider stub_env = Inr echo_provider
   \<and> SelectBackend \<in> set (ops (trace_of stub_env (post lease_text)))
   \<and> count_list (ops (trace_of stub_env (post lease_text))) SelectBackend = 1
   \<and> CreateLLMProvider None \<in> set (trace_of stub_env (post lease_text))
   \<and> GenerateLease (JObj lease_fields) (generateLease echo_provider (JObj lease_fields))
       \<in> set (trace_of stub_env (post lease_text))"
proof -
  have reached: "reaches_generation stub_env (post lease_text) allowed (JObj lease_fields)
      (JObj lease_fields)"
    by (simp add: reaches_generation_def reaches_challenge_def challenge_passed_def stub_defs)
  then have some: "\<exists>rl b input. reaches_generation stub_env (post lease_text) rl b input"
    by blast
  have provider: "createLLMProvider stub_env = Inr echo_provider"
    by (simp add: stub_env_def)
  from backend_is_selected_in_each_request [of stub_env "post lease_text" allowed
      "JObj lease_fields" "JObj lease_fields" echo_provider] reached some provider
  show ?thesis by simp
qed







lemma telemetry_reached:
  assumes "x \<in> set (ops (trace_of env ev))" and "x \<in> {TelemetryUsage, TelemetryCost, Render}"
  shows "\<exists>rl b input g. passes_output_validation env ev rl b input g
           \<and> (x \<noteq> TelemetryUsage \<longrightarrow> \<not> isl (logTokenUsage env (tokenUsage g)))"
proof -
  from assms(2) have "x \<in> {SelectBackend, Generate, OutputValidate, TelemetryUsage, TelemetryCost, Render}"
    by auto
  from backend_reached[OF assms(1) this]
  obtain rl b input where at: "reaches_generation env ev rl b input"
    and x: "x \<in> set (ops (snd (steps_3_to_7 env rl b)))" by blast
  from ops_reach_telemetry[OF x assms(2)] at show ?thesis
    by (auto simp add: passes_output_validation_def reaches_generation_def)
qed

lemma telemetry_ops:
  assumes "passes_output_validation env ev rl b input g"
  shows "TelemetryUsage \<in> set (ops (trace_of env ev))"
    and "\<not> isl (logTokenUsage env (tokenUsage g)) \<Longrightarrow> TelemetryCost \<in> set (ops (trace_of env ev))"
proof -
  have in_ops: "op_of e = Some x \<Longrightarrow> e \<in> set tr \<Longrightarrow> x \<in> set (ops tr)" for e x tr
    by (induction tr) (auto split: option.splits)
  from in_ops[OF _ telemetry_usage_event[OF assms]]
  show "TelemetryUsage \<in> set (ops (trace_of env ev))" by simp
  assume "\<not> isl (logTokenUsage env (tokenUsage g))"
  from in_ops[OF _ telemetry_cost_event[OF assms this]]
  show "TelemetryCost \<in> set (ops (trace_of env ev))" by simp
qed

text \<open>
  C10, as amended. \<^verbatim>\<open>logTokenUsage\<close> is called, once and with the generation's
  token usage, exactly in the requests that pass output validation; \<^verbatim>\<open>trackDailyCost\<close>
  is called, once and with the estimated cost, exactly in those of them in which
  \<^verbatim>\<open>logTokenUsage\<close> returned. A request that fails at or before output validation
  calls neither: on the 422 path the usage and the cost of the generation are not
  recorded.
\<close>

theorem telemetry_follows_output_validation:
  "(TelemetryUsage \<in> set (ops (trace_of env ev))
      \<longleftrightarrow> (\<exists>rl b input g. passes_output_validation env ev rl b input g))
   \<and> (TelemetryCost \<in> set (ops (trace_of env ev))
      \<longleftrightarrow> (\<exists>rl b input g. passes_output_validation env ev rl b input g
            \<and> \<not> isl (logTokenUsage env (tokenUsage g))))
   \<and> count_list (ops (trace_of env ev)) TelemetryUsage \<le> 1
   \<and> count_list (ops (trace_of env ev)) TelemetryCost \<le> 1
   \<and> (passes_output_validation env ev rl b input g
      \<longrightarrow> LogTokenUsage (tokenUsage g) (logTokenUsage env (tokenUsage g)) \<in> set (trace_of env ev))
   \<and> (passes_output_validation env ev rl b input g \<and> \<not> isl (logTokenUsage env (tokenUsage g))
      \<longrightarrow> TrackDailyCost (estimatedCost g) (trackDailyCost env (estimatedCost g))
            \<in> set (trace_of env ev))
   \<and> (reaches_generation env ev rl b input \<and> generation_of env input = Inr g
        \<and> LeaseOutputSchema_safeParse env (leaseData g) = Inl errors
      \<longrightarrow> statusCode (response_of env ev) = 422
          \<and> TelemetryUsage \<notin> set (ops (trace_of env ev))
          \<and> TelemetryCost \<notin> set (ops (trace_of env ev)))"
proof (intro conjI impI; (elim conjE)?)
  show "TelemetryUsage \<in> set (ops (trace_of env ev))
      \<longleftrightarrow> (\<exists>rl b input g. passes_output_validation env ev rl b input g)"
    using telemetry_reached[where x = TelemetryUsage and env = env and ev = ev]
      telemetry_ops(1)[of env ev]
    by blast
  show "TelemetryCost \<in> set (ops (trace_of env ev))
      \<longleftrightarrow> (\<exists>rl b input g. passes_output_validation env ev rl b input g
            \<and> \<not> isl (logTokenUsage env (tokenUsage g)))"
    using telemetry_reached[where x = TelemetryCost and env = env and ev = ev]
      telemetry_ops(2)[of env ev]
    by (simp; blast)
  show "count_list (ops (trace_of env ev)) TelemetryUsage \<le> 1"
    and "count_list (ops (trace_of env ev)) TelemetryCost \<le> 1"
    using count_list_distinct[OF distinct_ops[of env ev]] by simp_all
next
  assume "passes_output_validation env ev rl b input g"
  from telemetry_usage_event[OF this]
  show "LogTokenUsage (tokenUsage g) (logTokenUsage env (tokenUsage g)) \<in> set (trace_of env ev)" .
next
  assume "passes_output_validation env ev rl b input g" "\<not> isl (logTokenUsage env (tokenUsage g))"
  from telemetry_cost_event[OF this]
  show "TrackDailyCost (estimatedCost g) (trackDailyCost env (estimatedCost g))
            \<in> set (trace_of env ev)" .
next
  assume a: "reaches_generation env ev rl b input" "generation_of env input = Inr g"
    "LeaseOutputSchema_safeParse env (leaseData g) = Inl errors"
  have "set (ops (challenge_events env b)) \<subseteq> {ChallengeRequired, ChallengeVerify}"
    by (auto simp add: challenge_events_def split: sum.splits if_splits)
  with output_rejected[OF a]
  show "statusCode (response_of env ev) = 422"
    and "TelemetryUsage \<notin> set (ops (trace_of env ev))"
    and "TelemetryCost \<notin> set (ops (trace_of env ev))"
    by (auto simp add: invalid_output_response_def)
qed

theorem telemetry_follows_output_validation_witness:
  "passes_output_validation stub_env (post lease_text) allowed (JObj lease_fields)
      (JObj lease_fields) (echoed (JObj lease_fields))
   \<and> \<not> isl (logTokenUsage stub_env (tokenUsage (echoed (JObj lease_fields))))
   \<and> LogTokenUsage stub_usage (Inr ()) \<in> set (trace_of stub_env (post lease_text))
   \<and> TrackDailyCost stub_cost (Inr ()) \<in> set (trace_of stub_env (post lease_text))
   \<and> reaches_generation forgetful_env (post lease_text) allowed (JObj lease_fields) (JObj lease_fields)
   \<and> generation_of forgetful_env (JObj lease_fields) = Inr forgotten
   \<and> LeaseOutputSchema_safeParse forgetful_env (leaseData forgotten)
       = Inl [required_issue [Key ''financials'', Key ''monthlyRent'']]
   \<and> statusCode (response_of forgetful_env (post lease_text)) = 422
   \<and> TelemetryUsage \<notin> set (ops (trace_of forgetful_env (post lease_text)))
   \<and> TelemetryCost \<notin> set (ops (trace_of forgetful_env (post lease_text)))"
proof -
  have passed: "passes_output_validation stub_env (post lease_text) allowed (JObj lease_fields)
      (JObj lease_fields) (echoed (JObj lease_fields))"
    and logged: "\<not> isl (logTokenUsage stub_env (tokenUsage (echoed (JObj lease_fields))))"
    by (simp_all add: passes_output_validation_def reaches_generation_def reaches_challenge_def
          challenge_passed_def generation_of_def stub_defs)
  have rejected: "reaches_generation forgetful_env (post lease_text) allowed (JObj lease_fields)
      (JObj lease_fields)"
    "generation_of forgetful_env (JObj lease_fields) = Inr forgotten"
    "LeaseOutputSchema_safeParse forgetful_env (leaseData forgotten)
       = Inl [required_issue [Key ''financials'', Key ''monthlyRent'']]"
    by (simp_all add: reaches_generation_def reaches_challenge_def
          challenge_passed_def generation_of_def stub_defs)
  note T1 = telemetry_follows_output_validation [where env = stub_env and ev = "post lease_text"
      and rl = allowed and b = "JObj lease_fields" and input = "JObj lease_fields"
      and g = "echoed (JObj lease_fields)", THEN conjunct2, THEN conjunct2, THEN conjunct2,
      THEN conjunct2]
  note T2 = telemetry_follows_output_validation [where env = forgetful_env
      and ev = "post lease_text" and rl = allowed and b = "JObj lease_fields"
      and input = "JObj lease_fields" and g = forgotten
      and errors = "[required_issue [Key ''financials'', Key ''monthlyRent'']]",
      THEN conjunct2, THEN conjunct2, THEN conjunct2, THEN conjunct2, THEN conjunct2,
      THEN conjunct2]
  from T1 passed logged
  have "LogTokenUsage stub_usage (logTokenUsage stub_env stub_usage)
          \<in> set (trace_of stub_env (post lease_text))"
    and "TrackDailyCost stub_cost (trackDailyCost stub_env stub_cost)
          \<in> set (trace_of stub_env (post lease_text))"
    by (simp_all add: echoed_def)
  moreover from T2 rejected
  have "statusCode (response_of forgetful_env (post lease_text)) = 422
          \<and> TelemetryUsage \<notin> set (ops (trace_of forgetful_env (post lease_text)))
          \<and> TelemetryCost \<notin> set (ops (trace_of forgetful_env (post lease_text)))"
    by blast
  ultimately show ?thesis
    using passed logged rejected by (simp add: stub_env_def)
qed

text \<open>
  C10 as stated fails: a request whose rendering fails is a failed request (500), and
  both telemetry calls were made before the renderer was called.
\<close>

theorem telemetry_on_failed_request_counterexample:
  "statusCode (response_of unrendered_env (post lease_text)) = 500
   \<and> LogTokenUsage stub_usage (Inr ()) \<in> set (trace_of unrendered_env (post lease_text))
   \<and> TrackDailyCost stub_cost (Inr ()) \<in> set (trace_of unrendered_env (post lease_text))
   \<and> last (ops (trace_of unrendered_env (post lease_text))) = Render"
  by (simp add: handler_defs internal_error_response_def stub_defs)

end
